theory Spec2Isabelle
  imports Main
begin

section \<open>The Bundle resource (pkg/apis/trust/v1alpha1)\<close>

text \<open>
  A label selector of the Kubernetes API (\<open>metav1.LabelSelector\<close>): match labels and
  a list of requirements. The webhook never looks inside a selector; it hands it to
  the selector validator of the API machinery.
\<close>

record LabelSelectorRequirement =
  Requirement_Key :: string
  Operator :: string
  Values :: "string list"

record LabelSelector =
  MatchLabels :: "(string \<times> string) list"
  MatchExpressions :: "LabelSelectorRequirement list"

text \<open>
  \<open>SourceObjectKeySelector\<close>: a reference to a source object and its data key(s).
  \<open>Selector\<close> is a pointer in the source, \<open>None\<close> is its nil.
\<close>

record SourceObjectKeySelector =
  Name :: string
  Selector :: "LabelSelector option"
  Key :: string
  IncludeAllKeys :: bool

text \<open>
  \<open>BundleSource\<close>: four optional fields, each a pointer in the source.
\<close>

record BundleSource =
  ConfigMap :: "SourceObjectKeySelector option"
  Secret :: "SourceObjectKeySelector option"
  InLine :: "string option"
  UseDefaultCAs :: "bool option"

text \<open>
  Modelled from the spec: the declaration of \<open>KeySelector\<close> (the type of a target's
  \<open>configMap\<close> and \<open>secret\<close>) and of \<open>AdditionalFormats\<close>, \<open>JKS\<close> and \<open>PKCS12\<close>.
  The declaration of \<open>BundleTarget\<close> among the sources (a list of \<open>TargetKey\<close> for
  each target, the namespace selector by value) is not the one the webhook and the
  tests are written against. The webhook reads \<open>target.Key\<close> of a nil-able \<open>Target.ConfigMap\<close> and
  \<open>Target.Secret\<close>, and passes \<open>Target.NamespaceSelector\<close> where a pointer to a
  selector is expected; the validation tests build targets from
  \<open>KeySelector{Key: ...}\<close>, \<open>AdditionalFormats{JKS: ..., PKCS12: ...}\<close> and a pointer
  \<open>NamespaceSelector\<close>. The data model of the specification gives a key selector a
  key, an optional format and an optional password. The field \<open>Key\<close> of a key
  selector is named \<open>KeySelector_Key\<close> here, since \<open>Key\<close> is the field of a
  source selector; likewise \<open>Target_ConfigMap\<close> and \<open>Target_Secret\<close>.
\<close>

record KeySelector =
  KeySelector_Key :: string
  Format :: "string option"
  Password :: "string option"

record JKS =
  JKS_KeySelector :: KeySelector

record PKCS12 =
  PKCS12_KeySelector :: KeySelector

record AdditionalFormats =
  AdditionalFormats_JKS :: "JKS option"
  AdditionalFormats_PKCS12 :: "PKCS12 option"

record BundleTarget =
  Target_ConfigMap :: "KeySelector option"
  Target_Secret :: "KeySelector option"
  Target_AdditionalFormats :: "AdditionalFormats option"
  NamespaceSelector :: "LabelSelector option"

record BundleSpec =
  Sources :: "BundleSource list"
  Target :: BundleTarget

text \<open>
  \<open>Bundle\<close>: of the object's metadata the webhook reads the name only
  (\<open>bundle.Name\<close>, promoted from \<open>ObjectMeta\<close>); the status is never read.
\<close>

record Bundle =
  Bundle_Name :: string
  Spec :: BundleSpec

text \<open>
  A \<open>runtime.Object\<close> as the webhook receives it: a pointer to a Bundle (which may be
  a nil pointer of that type), or a value of another dynamic type, given by the name
  that \<open>%T\<close> prints for it.
\<close>

datatype Object = BundleObject "Bundle option" | OtherObject string

section \<open>Field paths and field errors (k8s.io/apimachinery, util/validation/field)\<close>

text \<open>
  A \<open>field.Path\<close> is a chain of elements linked by parent pointers; an element has a
  name, or, when the name is empty, an index. \<open>Path name index parent\<close>.
\<close>

datatype Path = Path string string "Path option"

definition NewPath :: "string \<Rightarrow> string list \<Rightarrow> Path" where
  "NewPath name moreNames =
     foldl (\<lambda>r anotherName. Path anotherName [] (Some r)) (Path name [] None) moreNames"

text \<open>\<open>Child\<close> builds a new path and makes \<open>p\<close> the parent of its root.\<close>

fun set_Root_parent :: "Path \<Rightarrow> Path \<Rightarrow> Path" where
  "set_Root_parent p (Path n i None) = Path n i (Some p)"
| "set_Root_parent p (Path n i (Some q)) = Path n i (Some (set_Root_parent p q))"

definition Child :: "Path \<Rightarrow> string \<Rightarrow> string list \<Rightarrow> Path" where
  "Child p name moreNames = set_Root_parent p (NewPath name moreNames)"

text \<open>\<open>strconv.Itoa\<close> on the index of a \<open>range\<close> loop, which is never negative.\<close>

definition digit :: "nat \<Rightarrow> char" where
  "digit d = char_of (48 + d)"

fun Itoa :: "nat \<Rightarrow> string" where
  "Itoa n = (if n < 10 then [digit n] else Itoa (n div 10) @ [digit (n mod 10)])"

declare Itoa.simps [simp del]

definition Index :: "Path \<Rightarrow> nat \<Rightarrow> Path" where
  "Index p i = Path [] (Itoa i) (Some p)"

text \<open>
  \<open>Path.String\<close>: the elements from the root down; a name that is not the root's is
  preceded by a dot, an element with an empty name prints its index in brackets.
\<close>

fun Path_String :: "Path \<Rightarrow> string" where
  "Path_String (Path n i None) = (if n \<noteq> [] then n else ''['' @ i @ '']'')"
| "Path_String (Path n i (Some q)) =
     Path_String q @ (if n \<noteq> [] then ''.'' @ n else ''['' @ i @ '']'')"

datatype ErrorType =
    ErrorTypeNotFound | ErrorTypeRequired | ErrorTypeDuplicate | ErrorTypeInvalid
  | ErrorTypeNotSupported | ErrorTypeForbidden | ErrorTypeTooLong | ErrorTypeTooMany
  | ErrorTypeInternal | ErrorTypeTypeInvalid

text \<open>
  A \<open>field.Error\<close>. \<open>BadValue\<close> is an \<open>interface{}\<close> in the library; the webhook
  only ever stores the empty string there.
\<close>

record Error =
  Type :: ErrorType
  Field :: string
  BadValue :: string
  Detail :: string

definition Invalid :: "Path \<Rightarrow> string \<Rightarrow> string \<Rightarrow> Error" where
  "Invalid field v detail =
     \<lparr>Type = ErrorTypeInvalid, Field = Path_String field, BadValue = v, Detail = detail\<rparr>"

definition Forbidden :: "Path \<Rightarrow> string \<Rightarrow> Error" where
  "Forbidden field detail =
     \<lparr>Type = ErrorTypeForbidden, Field = Path_String field, BadValue = [], Detail = detail\<rparr>"

text \<open>
  What the webhook calls and this repository does not contain: the label selector
  validator \<open>validation.ValidateLabelSelector\<close> (always called with the empty
  \<open>LabelSelectorValidationOptions{}\<close>) and the method \<open>Error()\<close> that renders a field
  error as text. Both are parameters of the model.
\<close>

record externals =
  ValidateLabelSelector :: "LabelSelector option \<Rightarrow> Path \<Rightarrow> Error list"
  Error_Error :: "Error \<Rightarrow> string"

text \<open>
  The Go \<open>error\<close> values the webhook returns: the aggregate of a list of field errors,
  or the error of \<open>fmt.Errorf\<close>. \<open>None\<close> is the nil error.
\<close>

datatype error = Aggregate "Error list" | Errorf string

text \<open>
  \<open>ErrorList.ToAggregate\<close>: nil for the empty list; otherwise the errors in order,
  leaving out each one whose text was already seen (\<open>errorMsgs\<close> is the set of texts
  seen so far).
\<close>

fun ToAggregate_loop :: "externals \<Rightarrow> string set \<Rightarrow> Error list \<Rightarrow> Error list" where
  "ToAggregate_loop ext errorMsgs [] = []"
| "ToAggregate_loop ext errorMsgs (err # list) =
     (if Error_Error ext err \<in> errorMsgs then ToAggregate_loop ext errorMsgs list
      else err # ToAggregate_loop ext (insert (Error_Error ext err) errorMsgs) list)"

definition NewAggregate :: "Error list \<Rightarrow> error option" where
  "NewAggregate errlist = (if errlist = [] then None else Some (Aggregate errlist))"

definition ToAggregate :: "externals \<Rightarrow> Error list \<Rightarrow> error option" where
  "ToAggregate ext list =
     (if list = [] then None else NewAggregate (ToAggregate_loop ext {} list))"

section \<open>The validating webhook (pkg/webhook)\<close>

text \<open>
  \<open>type validator struct{}\<close>: the receiver of every method has no field.
\<close>

datatype validator = Validator

text \<open>
  A method returns \<open>(admission.Warnings, error)\<close>, or panics when it reads through a
  nil Bundle pointer. Nil warnings are the empty list.
\<close>

datatype outcome = Return "string list" "error option" | Panic

text \<open>
  The logger taken from the context is the only thing outside its arguments that the
  webhook touches: \<open>validate\<close> writes one entry at verbosity 2. The log is passed in
  and returned. An entry: verbosity, message, keys and values.
\<close>

datatype LogEntry = Info nat string "(string \<times> string) list"

text \<open>
  The first loop of \<open>validate\<close>: the selectors of every source, at
  \<open>spec.sources[i].configMap.selector\<close> and \<open>spec.sources[i].secret.selector\<close>.
  \<open>el\<close> is the error list built so far, \<open>i\<close> the index of the loop.
\<close>

fun selectors_loop :: "externals \<Rightarrow> Path \<Rightarrow> nat \<Rightarrow> BundleSource list \<Rightarrow> Error list \<Rightarrow> Error list" where
  "selectors_loop ext path i [] el = el"
| "selectors_loop ext path i (source # rest) el =
     (let path' = Index (Child path ''sources'' []) i;
          el = (case ConfigMap source of
                  None \<Rightarrow> el
                | Some configMap \<Rightarrow>
                    el @ ValidateLabelSelector ext (Selector configMap)
                           (Child (Child path' ''configMap'' []) ''selector'' []));
          el = (case Secret source of
                  None \<Rightarrow> el
                | Some secret \<Rightarrow>
                    el @ ValidateLabelSelector ext (Selector secret)
                           (Child (Child path' ''secret'' []) ''selector'' []))
      in selectors_loop ext path (Suc i) rest el)"

text \<open>
  The second and third loop: a source that names the bundle itself with the key of
  the target. \<open>path\<close> is \<open>spec.sources\<close>; the index is a path element of its own,
  the text of \<open>fmt.Sprintf("[%d]", i)\<close>.
\<close>

fun configMap_loop :: "string \<Rightarrow> KeySelector \<Rightarrow> Path \<Rightarrow> nat \<Rightarrow> BundleSource list \<Rightarrow> Error list \<Rightarrow> Error list" where
  "configMap_loop bundleName target path i [] el = el"
| "configMap_loop bundleName target path i (source # rest) el =
     configMap_loop bundleName target path (Suc i) rest
       (case ConfigMap source of
          None \<Rightarrow> el
        | Some configMap \<Rightarrow>
            if Name configMap = bundleName \<and> Key configMap = KeySelector_Key target
            then el @ [Forbidden
                         (Child path (''['' @ Itoa i @ '']'')
                            [''configMap'', Name configMap, Key configMap])
                         ''cannot define the same source as target'']
            else el)"

fun secret_loop :: "string \<Rightarrow> KeySelector \<Rightarrow> Path \<Rightarrow> nat \<Rightarrow> BundleSource list \<Rightarrow> Error list \<Rightarrow> Error list" where
  "secret_loop bundleName target path i [] el = el"
| "secret_loop bundleName target path i (source # rest) el =
     secret_loop bundleName target path (Suc i) rest
       (case Secret source of
          None \<Rightarrow> el
        | Some secret \<Rightarrow>
            if Name secret = bundleName \<and> Key secret = KeySelector_Key target
            then el @ [Forbidden
                         (Child path (''['' @ Itoa i @ '']'')
                            [''secret'', Name secret, Key secret])
                         ''cannot define the same source as target'']
            else el)"

text \<open>
  The error list \<open>el\<close> of \<open>validate\<close> as it stands before \<open>el.ToAggregate()\<close>.
\<close>

definition validate_el :: "externals \<Rightarrow> Bundle \<Rightarrow> Error list" where
  "validate_el ext bundle =
     (let path = NewPath ''spec'' [];
          el = [];
          el = selectors_loop ext path 0 (Sources (Spec bundle)) el;
          el = (case Target_ConfigMap (Target (Spec bundle)) of
                  None \<Rightarrow> el
                | Some target \<Rightarrow>
                    configMap_loop (Bundle_Name bundle) target (Child path ''sources'' []) 0
                      (Sources (Spec bundle)) el);
          el = (case Target_Secret (Target (Spec bundle)) of
                  None \<Rightarrow> el
                | Some target \<Rightarrow>
                    secret_loop (Bundle_Name bundle) target (Child path ''sources'' []) 0
                      (Sources (Spec bundle)) el);
          el = el @ ValidateLabelSelector ext (NamespaceSelector (Target (Spec bundle)))
                      (Child path ''target'' [''namespaceSelector''])
      in el)"

definition validate :: "validator \<Rightarrow> externals \<Rightarrow> Object \<Rightarrow> LogEntry list \<Rightarrow> outcome \<times> LogEntry list" where
  "validate v ext obj log =
     (case obj of
        OtherObject t \<Rightarrow> (Return [] (Some (Errorf (''expected a Bundle, but got a '' @ t))), log)
      | BundleObject None \<Rightarrow> (Panic, log)
      | BundleObject (Some bundle) \<Rightarrow>
          (Return [] (ToAggregate ext (validate_el ext bundle)),
           log @ [Info 2 ''received validation request'' [(''name'', Bundle_Name bundle)]]))"

definition ValidateCreate :: "validator \<Rightarrow> externals \<Rightarrow> Object \<Rightarrow> LogEntry list \<Rightarrow> outcome \<times> LogEntry list" where
  "ValidateCreate v ext obj log = validate v ext obj log"

text \<open>
  A condition \<open>old.Spec.Target.F != nil && new.Spec.Target.F == nil\<close> of
  \<open>ValidateUpdate\<close>: the old pointer is read first, the new one only when the old
  target is set. \<open>None\<close>: a nil pointer was read.
\<close>

definition target_removed :: "(BundleTarget \<Rightarrow> KeySelector option) \<Rightarrow> Bundle option \<Rightarrow> Bundle option \<Rightarrow> bool option" where
  "target_removed F oldBundle newBundle =
     (case oldBundle of
        None \<Rightarrow> None
      | Some old \<Rightarrow>
          if F (Target (Spec old)) \<noteq> None
          then (case newBundle of
                  None \<Rightarrow> None
                | Some new \<Rightarrow> Some (F (Target (Spec new)) = None))
          else Some False)"

definition ValidateUpdate :: "validator \<Rightarrow> externals \<Rightarrow> Object \<Rightarrow> Object \<Rightarrow> LogEntry list \<Rightarrow> outcome \<times> LogEntry list" where
  "ValidateUpdate v ext oldObj newObj log =
     (case oldObj of
        OtherObject t \<Rightarrow>
          (Return [] (Some (Errorf ''expected a Bundle, but got a *v1alpha1.Bundle'')), log)
      | BundleObject oldBundle \<Rightarrow>
     (case newObj of
        OtherObject t \<Rightarrow>
          (Return [] (Some (Errorf ''expected a Bundle, but got a *v1alpha1.Bundle'')), log)
      | BundleObject newBundle \<Rightarrow>
     (let path = NewPath ''spec'' [] in
      case target_removed Target_ConfigMap oldBundle newBundle of
        None \<Rightarrow> (Panic, log)
      | Some True \<Rightarrow>
          (Return [] (ToAggregate ext
             [Invalid (Child path ''target'' [''configmap'']) []
                ''target configMap removal is not allowed'']), log)
      | Some False \<Rightarrow>
     (case target_removed Target_Secret oldBundle newBundle of
        None \<Rightarrow> (Panic, log)
      | Some True \<Rightarrow>
          (Return [] (ToAggregate ext
             [Invalid (Child path ''target'' [''secret'']) []
                ''target secret removal is not allowed'']), log)
      | Some False \<Rightarrow> validate v ext newObj log))))"

definition ValidateDelete :: "validator \<Rightarrow> externals \<Rightarrow> Object \<Rightarrow> LogEntry list \<Rightarrow> outcome \<times> LogEntry list" where
  "ValidateDelete v ext obj log = (Return [] None, log)"

text \<open>
  The field errors carried by what a method returned: those of the aggregate, none
  for a nil error, for the error of \<open>fmt.Errorf\<close> and for a panic.
\<close>

fun faults_of :: "outcome \<Rightarrow> Error list" where
  "faults_of (Return warnings (Some (Aggregate errs))) = errs"
| "faults_of (Return warnings (Some (Errorf msg))) = []"
| "faults_of (Return warnings None) = []"
| "faults_of Panic = []"

text \<open>
  The error that the second (\<open>kind = configMap\<close>) and the third (\<open>kind = secret\<close>)
  loop of \<open>validate\<close> append for the source at index \<open>i\<close> with selector \<open>sel\<close>.
\<close>

definition same_source_fault :: "nat \<Rightarrow> string \<Rightarrow> SourceObjectKeySelector \<Rightarrow> Error" where
  "same_source_fault i kind sel =
     Forbidden
       (Child (Child (NewPath ''spec'' []) ''sources'' []) (''['' @ Itoa i @ '']'')
          [kind, Name sel, Key sel])
       ''cannot define the same source as target''"

section \<open>The checks of the resource definition\<close>

text \<open>
  The validation tests expect four more faults from the API server:
  \<open>must define exactly one source\<close>, \<open>must define at least one target
  configMap/secret\<close> and the two faults on additional format keys. The rules that
  raise them belong to the resource definition; the sources hold their tests only, and
  the webhook has none of them. Each definition of this section is modelled from the
  specification, sections 4.1 (step 1) and 4.2 (steps 1 and 3 to 6); type, path and
  value of each fault are those of the tests' expected texts
  (\<open>spec.sources[0]: Invalid value: "object": ...\<close>).
\<close>

text \<open>
  Modelled from the spec: the rule on a source item is missing from the sources.
  Section 4.1, step 1: how many of \<open>configMap != nil\<close>, \<open>secret != nil\<close>,
  \<open>inLine != nil\<close>, \<open>useDefaultCAs == true\<close> are populated.
\<close>

definition count_populated :: "BundleSource \<Rightarrow> nat" where
  "count_populated source =
     (if ConfigMap source \<noteq> None then 1 else 0) + (if Secret source \<noteq> None then 1 else 0) +
     (if InLine source \<noteq> None then 1 else 0) + (if UseDefaultCAs source = Some True then 1 else 0)"

text \<open>
  Modelled from the spec: the rule on a source item is missing from the sources.
  Section 4.1, step 1: if the count is not exactly 1, a fault at \<open>sources[i]\<close>.
\<close>

definition validate_source_item :: "nat \<Rightarrow> BundleSource \<Rightarrow> Error list" where
  "validate_source_item i source =
     (if count_populated source \<noteq> 1
      then [Invalid (Index (Child (NewPath ''spec'' []) ''sources'' []) i) ''object''
              ''must define exactly one source'']
      else [])"

text \<open>
  Modelled from the spec: the rule on the presence of a target is missing from the
  sources. Section 4.2, step 1: if neither \<open>configMap\<close> nor \<open>secret\<close> is set, a fault
  at \<open>target\<close>.
\<close>

definition validate_target_defined :: "BundleTarget \<Rightarrow> Error list" where
  "validate_target_defined target =
     (if Target_ConfigMap target = None \<and> Target_Secret target = None
      then [Invalid (Child (NewPath ''spec'' []) ''target'' []) ''object''
              ''must define at least one target configMap/secret'']
      else [])"

text \<open>
  Modelled from the spec: the rules on additional format keys are missing from the
  sources. Section 4.2, step 3: the primary keys in use.
\<close>

definition primary_keys :: "BundleTarget \<Rightarrow> string list" where
  "primary_keys target =
     (case Target_ConfigMap target of None \<Rightarrow> [] | Some configMap \<Rightarrow> [KeySelector_Key configMap]) @
     (case Target_Secret target of None \<Rightarrow> [] | Some secret \<Rightarrow> [KeySelector_Key secret])"

text \<open>
  Modelled from the spec: the rules on additional format keys are missing from the
  sources. Section 4.2, step 4: the JKS key, if present.
\<close>

definition jks_keys :: "BundleTarget \<Rightarrow> string list" where
  "jks_keys target =
     (case Target_AdditionalFormats target of
        None \<Rightarrow> []
      | Some formats \<Rightarrow>
          (case AdditionalFormats_JKS formats of
             None \<Rightarrow> []
           | Some jks \<Rightarrow> [KeySelector_Key (JKS_KeySelector jks)]))"

text \<open>
  Modelled from the spec: the rules on additional format keys are missing from the
  sources. Section 4.2, step 4: the PKCS12 key, if present.
\<close>

definition pkcs12_keys :: "BundleTarget \<Rightarrow> string list" where
  "pkcs12_keys target =
     (case Target_AdditionalFormats target of
        None \<Rightarrow> []
      | Some formats \<Rightarrow>
          (case AdditionalFormats_PKCS12 formats of
             None \<Rightarrow> []
           | Some pkcs12 \<Rightarrow> [KeySelector_Key (PKCS12_KeySelector pkcs12)]))"

text \<open>
  Modelled from the spec: the rules on additional format keys are missing from the
  sources. Section 4.2, step 4: the additional format keys in use.
\<close>

definition additional_format_keys :: "BundleTarget \<Rightarrow> string list" where
  "additional_format_keys target = jks_keys target @ pkcs12_keys target"

text \<open>
  Modelled from the spec: the rules on additional format keys are missing from the
  sources. Section 4.2, step 5: if any additional format key equals any primary key,
  a fault at \<open>target\<close>.
\<close>

definition validate_additional_format_keys_differ :: "BundleTarget \<Rightarrow> Error list" where
  "validate_additional_format_keys_differ target =
     (if set (additional_format_keys target) \<inter> set (primary_keys target) \<noteq> {}
      then [Invalid (Child (NewPath ''spec'' []) ''target'' []) ''object''
              ''additional format keys must be different from configMap/secret keys'']
      else [])"

text \<open>
  Modelled from the spec: the rules on additional format keys are missing from the
  sources. Section 4.2, step 6: if both additional format keys are present and equal
  each other, a fault at \<open>target\<close>.
\<close>

definition validate_additional_format_keys_unique :: "BundleTarget \<Rightarrow> Error list" where
  "validate_additional_format_keys_unique target =
     (if jks_keys target \<noteq> [] \<and> jks_keys target = pkcs12_keys target
      then [Invalid (Child (NewPath ''spec'' []) ''target'' []) ''object''
              ''additional format keys must be unique'']
      else [])"

section \<open>An instance of the two library functions\<close>

text \<open>
  For the worked examples: a selector validator that applies one rule of the
  library's (a requirement with operator \<open>In\<close> or \<open>NotIn\<close> must list values, reported
  as a required value at \<open>matchExpressions[i].values\<close>), and a rendering of a field
  error in the library's manner (field, type, bad value between double quotes except
  for the types that carry none, detail).
\<close>

definition Required :: "Path \<Rightarrow> string \<Rightarrow> Error" where
  "Required field detail =
     \<lparr>Type = ErrorTypeRequired, Field = Path_String field, BadValue = [], Detail = detail\<rparr>"

fun example_requirements :: "Path \<Rightarrow> nat \<Rightarrow> LabelSelectorRequirement list \<Rightarrow> Error list" where
  "example_requirements fldPath i [] = []"
| "example_requirements fldPath i (expr # rest) =
     (if (Operator expr = ''In'' \<or> Operator expr = ''NotIn'') \<and> Values expr = []
      then [Required (Child (Index (Child fldPath ''matchExpressions'' []) i) ''values'' [])
              ''must be specified when operator is In or NotIn'']
      else []) @ example_requirements fldPath (Suc i) rest"

definition example_ValidateLabelSelector :: "LabelSelector option \<Rightarrow> Path \<Rightarrow> Error list" where
  "example_ValidateLabelSelector ps fldPath =
     (case ps of None \<Rightarrow> [] | Some s \<Rightarrow> example_requirements fldPath 0 (MatchExpressions s))"

fun ErrorType_String :: "ErrorType \<Rightarrow> string" where
  "ErrorType_String ErrorTypeNotFound = ''Not found''"
| "ErrorType_String ErrorTypeRequired = ''Required value''"
| "ErrorType_String ErrorTypeDuplicate = ''Duplicate value''"
| "ErrorType_String ErrorTypeInvalid = ''Invalid value''"
| "ErrorType_String ErrorTypeNotSupported = ''Unsupported value''"
| "ErrorType_String ErrorTypeForbidden = ''Forbidden''"
| "ErrorType_String ErrorTypeTooLong = ''Too long''"
| "ErrorType_String ErrorTypeTooMany = ''Too many''"
| "ErrorType_String ErrorTypeInternal = ''Internal error''"
| "ErrorType_String ErrorTypeTypeInvalid = ''Invalid value''"

definition example_Error_Error :: "Error \<Rightarrow> string" where
  "example_Error_Error e =
     Field e @ '': '' @ ErrorType_String (Type e) @
     (if Type e \<in> {ErrorTypeRequired, ErrorTypeForbidden, ErrorTypeTooLong, ErrorTypeInternal}
      then [] else '': '' @ [CHR 0x22] @ BadValue e @ [CHR 0x22]) @
     (if Detail e \<noteq> [] then '': '' @ Detail e else [])"

definition example_externals :: externals where
  "example_externals =
     \<lparr>ValidateLabelSelector = example_ValidateLabelSelector, Error_Error = example_Error_Error\<rparr>"

section \<open>Example values\<close>

text \<open>
  Go literals of the validation tests, for the worked examples:
  \<open>KeySelector{Key: k}\<close>, a target with the given \<open>configMap\<close> and \<open>secret\<close>, the source
  \<open>{UseDefaultCAs: true}\<close>, \<open>SourceObjectKeySelector{Name: n, Key: k}\<close>, a bundle
  with a name, sources and a target, and the sources \<open>{ConfigMap: sel}\<close> and
  \<open>{Secret: sel}\<close>.
\<close>

definition example_key :: "string \<Rightarrow> KeySelector" where
  "example_key k = \<lparr>KeySelector_Key = k, Format = None, Password = None\<rparr>"

definition example_target :: "KeySelector option \<Rightarrow> KeySelector option \<Rightarrow> BundleTarget" where
  "example_target configMap secret =
     \<lparr>Target_ConfigMap = configMap, Target_Secret = secret, Target_AdditionalFormats = None,
      NamespaceSelector = None\<rparr>"

definition example_defaultCAs :: BundleSource where
  "example_defaultCAs = \<lparr>ConfigMap = None, Secret = None, InLine = None, UseDefaultCAs = Some True\<rparr>"

definition example_selector :: "string \<Rightarrow> string \<Rightarrow> SourceObjectKeySelector" where
  "example_selector n k = \<lparr>Name = n, Selector = None, Key = k, IncludeAllKeys = False\<rparr>"

definition example_bundle :: "string \<Rightarrow> BundleSource list \<Rightarrow> BundleTarget \<Rightarrow> Bundle" where
  "example_bundle n sources target = \<lparr>Bundle_Name = n, Spec = \<lparr>Sources = sources, Target = target\<rparr>\<rparr>"

definition example_configMap_source :: "SourceObjectKeySelector \<Rightarrow> BundleSource" where
  "example_configMap_source sel = \<lparr>ConfigMap = Some sel, Secret = None, InLine = None, UseDefaultCAs = None\<rparr>"

definition example_secret_source :: "SourceObjectKeySelector \<Rightarrow> BundleSource" where
  "example_secret_source sel = \<lparr>ConfigMap = None, Secret = Some sel, InLine = None, UseDefaultCAs = None\<rparr>"

text \<open>
  The target that the test table on additional format keys builds from a
  \<open>TargetKeySpec\<close>: a key that is the empty string leaves its field unset.
\<close>

definition TargetKeySpec_target :: "string \<Rightarrow> string \<Rightarrow> string \<Rightarrow> string \<Rightarrow> BundleTarget" where
  "TargetKeySpec_target ConfigMapKey SecretKey JKSKey PKCS12Key =
     \<lparr>Target_ConfigMap = (if ConfigMapKey \<noteq> [] then Some (example_key ConfigMapKey) else None),
      Target_Secret = (if SecretKey \<noteq> [] then Some (example_key SecretKey) else None),
      Target_AdditionalFormats = Some
        \<lparr>AdditionalFormats_JKS =
           (if JKSKey \<noteq> [] then Some \<lparr>JKS_KeySelector = example_key JKSKey\<rparr> else None),
         AdditionalFormats_PKCS12 =
           (if PKCS12Key \<noteq> [] then Some \<lparr>PKCS12_KeySelector = example_key PKCS12Key\<rparr> else None)\<rparr>,
      NamespaceSelector = None\<rparr>"

section \<open>Auxiliary notions for the proofs\<close>

text \<open>
  How \<open>Path.String\<close> prints a name below the root; what one round of the first loop
  of \<open>validate\<close> appends; what one round of the second or third loop appends.
\<close>

definition dotted :: "string \<Rightarrow> string" where
  "dotted n = (if n \<noteq> [] then ''.'' @ n else ''[]'')"

definition source_selector_faults :: "externals \<Rightarrow> Path \<Rightarrow> nat \<Rightarrow> BundleSource \<Rightarrow> Error list" where
  "source_selector_faults ext path i source =
     (case ConfigMap source of
        None \<Rightarrow> []
      | Some configMap \<Rightarrow>
          ValidateLabelSelector ext (Selector configMap)
            (Child (Child (Index (Child path ''sources'' []) i) ''configMap'' []) ''selector'' [])) @
     (case Secret source of
        None \<Rightarrow> []
      | Some secret \<Rightarrow>
          ValidateLabelSelector ext (Selector secret)
            (Child (Child (Index (Child path ''sources'' []) i) ''secret'' []) ''selector'' []))"

definition same_source_item :: "string \<Rightarrow> SourceObjectKeySelector option \<Rightarrow> string \<Rightarrow> KeySelector \<Rightarrow> Path \<Rightarrow> nat \<Rightarrow> Error list" where
  "same_source_item kind sel bundleName target path i =
     (case sel of
        None \<Rightarrow> []
      | Some s \<Rightarrow>
          if Name s = bundleName \<and> Key s = KeySelector_Key target
          then [Forbidden (Child path (''['' @ Itoa i @ '']'') [kind, Name s, Key s])
                  ''cannot define the same source as target'']
          else [])"

section \<open>Field paths as text\<close>

lemma set_Root_parent_foldl:
  "set_Root_parent p (foldl (\<lambda>r a. Path a [] (Some r)) r names) =
   foldl (\<lambda>r a. Path a [] (Some r)) (set_Root_parent p r) names"
  by (induction names arbitrary: r) simp_all

lemma Path_String_foldl:
  "Path_String (foldl (\<lambda>r a. Path a [] (Some r)) r names) = Path_String r @ concat (map dotted names)"
  by (induction names arbitrary: r) (simp_all add: dotted_def)

lemma Path_String_Child:
  "Path_String (Child p name names) = Path_String p @ concat (map dotted (name # names))"
  by (simp add: Child_def NewPath_def set_Root_parent_foldl Path_String_foldl dotted_def)

lemma Path_String_NewPath:
  "Path_String (NewPath name names) = (if name \<noteq> [] then name else ''[]'') @ concat (map dotted names)"
  by (simp add: NewPath_def Path_String_foldl)

lemma Path_String_Index: "Path_String (Index p i) = Path_String p @ ''['' @ Itoa i @ '']''"
  by (simp add: Index_def)

lemma Field_sources_Index:
  "Path_String (Index (Child (NewPath ''spec'' []) ''sources'' []) i) = ''spec.sources['' @ Itoa i @ '']''"
  by (simp add: Path_String_Index Path_String_Child Path_String_NewPath dotted_def)

lemma Field_target: "Path_String (Child (NewPath ''spec'' []) ''target'' []) = ''spec.target''"
  by (simp add: Path_String_Child Path_String_NewPath dotted_def)

text \<open>Decimal numerals: no closing bracket among the digits, and no two numbers share one.\<close>

lemma of_char_digit: "d < 10 \<Longrightarrow> of_char (digit d) = 48 + d"
proof -
  assume "d < 10"
  have "of_char (digit d) = (48 + d) mod 256" unfolding digit_def by (rule of_char_of)
  also from \<open>d < 10\<close> have "\<dots> = 48 + d" by simp
  finally show ?thesis .
qed

lemma digit_inj: "a < 10 \<Longrightarrow> b < 10 \<Longrightarrow> digit a = digit b \<Longrightarrow> a = b"
proof -
  assume a: "a < 10" and b: "b < 10" and e: "digit a = digit b"
  have "48 + a = (of_char (digit a) :: nat)" using a by (simp only: of_char_digit)
  also have "\<dots> = of_char (digit b)" by (simp only: e)
  also have "\<dots> = 48 + b" using b by (simp only: of_char_digit)
  finally show ?thesis by simp
qed

lemma digit_not_bracket: "d < 10 \<Longrightarrow> digit d \<noteq> CHR '']''"
proof
  assume d: "d < 10" and e: "digit d = CHR '']''"
  have "48 + d = (of_char (digit d) :: nat)" using d by (simp only: of_char_digit)
  also have "\<dots> = of_char (CHR '']'')" by (simp only: e)
  also have "\<dots> = 93" by simp
  finally show False using d by simp
qed

lemma Itoa_small: "n < 10 \<Longrightarrow> Itoa n = [digit n]"
  by (subst Itoa.simps) simp

lemma Itoa_large: "\<not> n < 10 \<Longrightarrow> Itoa n = Itoa (n div 10) @ [digit (n mod 10)]"
  by (subst Itoa.simps) simp

lemma Itoa_not_Nil: "Itoa n \<noteq> []"
  by (cases "n < 10") (simp_all add: Itoa_small Itoa_large)

lemma Itoa_no_bracket: "CHR '']'' \<notin> set (Itoa n)"
proof (induction n rule: Itoa.induct)
  case (1 n)
  show ?case
  proof (cases "n < 10")
    case True
    then show ?thesis using digit_not_bracket [of n] by (simp add: Itoa_small)
  next
    case False
    then show ?thesis using 1 digit_not_bracket [of "n mod 10"] by (simp add: Itoa_large)
  qed
qed

lemma Itoa_inj: "Itoa i = Itoa j \<Longrightarrow> i = j"
proof (induction i arbitrary: j rule: Itoa.induct)
  case (1 n)
  show ?case
  proof (cases "n < 10")
    case True
    show ?thesis
    proof (cases "j < 10")
      case True
      with \<open>n < 10\<close> 1(2) show ?thesis by (simp add: Itoa_small digit_inj)
    next
      case False
      with \<open>n < 10\<close> 1(2) Itoa_not_Nil [of "j div 10"] show ?thesis
        by (simp add: Itoa_small Itoa_large)
    qed
  next
    case False
    show ?thesis
    proof (cases "j < 10")
      case True
      with False 1(2) Itoa_not_Nil [of "n div 10"] show ?thesis
        by (simp add: Itoa_small Itoa_large)
    next
      case jf: False
      with False 1(2) have e: "Itoa (n div 10) = Itoa (j div 10)" "digit (n mod 10) = digit (j mod 10)"
        by (simp_all add: Itoa_large)
      from 1(1) [OF False e(1)] have "n div 10 = j div 10" .
      moreover from e(2) have "n mod 10 = j mod 10" by (intro digit_inj) simp_all
      ultimately show ?thesis by (metis div_mult_mod_eq)
    qed
  qed
qed

lemma Itoa_0: "Itoa 0 = ''0''"
  by code_simp

lemma Itoa_12: "Itoa 12 = ''12''"
  by code_simp

lemma append_delimiter_eq:
  "c \<notin> set xs \<Longrightarrow> c \<notin> set ys \<Longrightarrow> xs @ c # r1 = ys @ c # r2 \<Longrightarrow> xs = ys"
proof (induction xs arbitrary: ys)
  case Nil
  then show ?case by (cases ys) auto
next
  case (Cons x xs)
  then show ?case by (cases ys) auto
qed

text \<open>
  The field of the error for a source that is its own target, written out; a field
  that begins with \<open>spec.sources.[i]\<close> is that of source \<open>i\<close> and of no other.
\<close>

lemma Field_same_source_fault:
  "Field (same_source_fault i kind sel) =
   ''spec.sources.['' @ Itoa i @ '']'' @ dotted kind @ dotted (Name sel) @ dotted (Key sel)"
  by (simp add: same_source_fault_def Forbidden_def Path_String_Child Path_String_NewPath dotted_def)

lemma Detail_same_source_fault:
  "Detail (same_source_fault i kind s) = ''cannot define the same source as target''"
  by (simp add: same_source_fault_def Forbidden_def)

lemma same_source_fault_literal:
  "same_source_fault i kind s =
   \<lparr>Type = ErrorTypeForbidden,
    Field = ''spec.sources.['' @ Itoa i @ '']'' @ dotted kind @ dotted (Name s) @ dotted (Key s),
    BadValue = [], Detail = ''cannot define the same source as target''\<rparr>"
  using Field_same_source_fault [of i kind s]
  by (simp add: same_source_fault_def Forbidden_def)

lemma same_source_fault_configMap:
  "same_source_fault i ''configMap'' s =
   \<lparr>Type = ErrorTypeForbidden,
    Field = ''spec.sources.['' @ Itoa i @ ''].configMap'' @
            (if Name s \<noteq> [] then ''.'' @ Name s else ''[]'') @
            (if Key s \<noteq> [] then ''.'' @ Key s else ''[]''),
    BadValue = [], Detail = ''cannot define the same source as target''\<rparr>"
  by (simp add: same_source_fault_literal dotted_def)

lemma same_source_fault_secret:
  "same_source_fault i ''secret'' s =
   \<lparr>Type = ErrorTypeForbidden,
    Field = ''spec.sources.['' @ Itoa i @ ''].secret'' @
            (if Name s \<noteq> [] then ''.'' @ Name s else ''[]'') @
            (if Key s \<noteq> [] then ''.'' @ Key s else ''[]''),
    BadValue = [], Detail = ''cannot define the same source as target''\<rparr>"
  by (simp add: same_source_fault_literal dotted_def)

lemma same_source_fault_prefix_index:
  assumes "Field (same_source_fault k kind s) = ''spec.sources.['' @ Itoa i @ '']'' @ rest"
  shows "k = i \<and> dotted kind @ dotted (Name s) @ dotted (Key s) = rest"
proof -
  from assms have e: "Itoa k @ CHR '']'' # (dotted kind @ dotted (Name s) @ dotted (Key s)) =
                   Itoa i @ CHR '']'' # rest"
    by (simp add: Field_same_source_fault)
  then have "Itoa k = Itoa i"
    by (rule append_delimiter_eq [rotated 2]) (rule Itoa_no_bracket)+
  then have "k = i" by (rule Itoa_inj)
  with e show ?thesis by simp
qed

lemma Invalid_configmap:
  "Invalid (Child (NewPath ''spec'' []) ''target'' [''configmap'']) [] d =
   \<lparr>Type = ErrorTypeInvalid, Field = ''spec.target.configmap'', BadValue = [], Detail = d\<rparr>"
  by (simp add: Invalid_def Path_String_Child Path_String_NewPath dotted_def)

lemma Invalid_secret:
  "Invalid (Child (NewPath ''spec'' []) ''target'' [''secret'']) [] d =
   \<lparr>Type = ErrorTypeInvalid, Field = ''spec.target.secret'', BadValue = [], Detail = d\<rparr>"
  by (simp add: Invalid_def Path_String_Child Path_String_NewPath dotted_def)

section \<open>The loops of \<open>validate\<close>\<close>

lemma selectors_loop_Cons:
  "selectors_loop ext path i (source # rest) el =
   selectors_loop ext path (Suc i) rest (el @ source_selector_faults ext path i source)"
  by (simp add: source_selector_faults_def Let_def split: option.split)

lemma source_selector_faults_origin:
  "f \<in> set (source_selector_faults ext path i source) \<Longrightarrow>
   \<exists>ps p. f \<in> set (ValidateLabelSelector ext ps p)"
  unfolding source_selector_faults_def
  by (cases "ConfigMap source"; cases "Secret source") auto

lemma selectors_loop_origin:
  "f \<in> set (selectors_loop ext path i srcs el) \<Longrightarrow>
   f \<in> set el \<or> (\<exists>ps p. f \<in> set (ValidateLabelSelector ext ps p))"
proof (induction srcs arbitrary: i el)
  case Nil
  then show ?case by simp
next
  case (Cons source rest)
  from Cons.prems have "f \<in> set (selectors_loop ext path (Suc i) rest (el @ source_selector_faults ext path i source))"
    by (simp only: selectors_loop_Cons)
  then have "f \<in> set (el @ source_selector_faults ext path i source) \<or>
             (\<exists>ps p. f \<in> set (ValidateLabelSelector ext ps p))"
    by (rule Cons.IH)
  then show ?case
    using source_selector_faults_origin [of f ext path i source] by auto
qed

lemma configMap_loop_Cons:
  "configMap_loop bn t path i (source # rest) el =
   configMap_loop bn t path (Suc i) rest
     (el @ same_source_item ''configMap'' (ConfigMap source) bn t path i)"
  by (simp add: same_source_item_def split: option.split)

lemma secret_loop_Cons:
  "secret_loop bn t path i (source # rest) el =
   secret_loop bn t path (Suc i) rest
     (el @ same_source_item ''secret'' (Secret source) bn t path i)"
  by (simp add: same_source_item_def split: option.split)

lemma ex_less_Suc_shift: "(\<exists>k<Suc n. P k) \<longleftrightarrow> P 0 \<or> (\<exists>k<n. P (Suc k))"
proof
  assume "\<exists>k<Suc n. P k"
  then obtain k where k: "k < Suc n" "P k" by blast
  show "P 0 \<or> (\<exists>k<n. P (Suc k))"
  proof (cases k)
    case 0
    with k show ?thesis by simp
  next
    case (Suc k')
    with k show ?thesis by auto
  qed
next
  assume "P 0 \<or> (\<exists>k<n. P (Suc k))"
  then show "\<exists>k<Suc n. P k" by auto
qed

lemma configMap_loop_mem:
  "f \<in> set (configMap_loop bn t path i srcs el) \<longleftrightarrow>
   f \<in> set el \<or>
   (\<exists>k<length srcs. f \<in> set (same_source_item ''configMap'' (ConfigMap (srcs ! k)) bn t path (i + k)))"
proof (induction srcs arbitrary: i el)
  case Nil
  then show ?case by simp
next
  case (Cons source rest)
  let ?Q = "\<lambda>srcs i k. f \<in> set (same_source_item ''configMap'' (ConfigMap (srcs ! k)) bn t path (i + k))"
  have "(\<exists>k<length (source # rest). ?Q (source # rest) i k) \<longleftrightarrow>
        ?Q (source # rest) i 0 \<or> (\<exists>k<length rest. ?Q (source # rest) i (Suc k))"
    using ex_less_Suc_shift [of "length rest" "?Q (source # rest) i"] by simp
  also have "\<dots> \<longleftrightarrow> f \<in> set (same_source_item ''configMap'' (ConfigMap source) bn t path i) \<or>
        (\<exists>k<length rest. ?Q rest (Suc i) k)"
    by simp
  finally show ?case
    by (simp only: configMap_loop_Cons Cons.IH set_append Un_iff disj_assoc)
qed

lemma secret_loop_mem:
  "f \<in> set (secret_loop bn t path i srcs el) \<longleftrightarrow>
   f \<in> set el \<or>
   (\<exists>k<length srcs. f \<in> set (same_source_item ''secret'' (Secret (srcs ! k)) bn t path (i + k)))"
proof (induction srcs arbitrary: i el)
  case Nil
  then show ?case by simp
next
  case (Cons source rest)
  let ?Q = "\<lambda>srcs i k. f \<in> set (same_source_item ''secret'' (Secret (srcs ! k)) bn t path (i + k))"
  have "(\<exists>k<length (source # rest). ?Q (source # rest) i k) \<longleftrightarrow>
        ?Q (source # rest) i 0 \<or> (\<exists>k<length rest. ?Q (source # rest) i (Suc k))"
    using ex_less_Suc_shift [of "length rest" "?Q (source # rest) i"] by simp
  also have "\<dots> \<longleftrightarrow> f \<in> set (same_source_item ''secret'' (Secret source) bn t path i) \<or>
        (\<exists>k<length rest. ?Q rest (Suc i) k)"
    by simp
  finally show ?case
    by (simp only: secret_loop_Cons Cons.IH set_append Un_iff disj_assoc)
qed

lemma same_source_item_Some:
  "same_source_item kind (Some s) bn t (Child (NewPath ''spec'' []) ''sources'' []) k =
   (if Name s = bn \<and> Key s = KeySelector_Key t then [same_source_fault k kind s] else [])"
  by (simp add: same_source_item_def same_source_fault_def)

lemma same_source_item_None: "same_source_item kind None bn t path k = []"
  by (simp add: same_source_item_def)

lemma validate_el_mem:
  "f \<in> set (validate_el ext b) \<longleftrightarrow>
   f \<in> set (selectors_loop ext (NewPath ''spec'' []) 0 (Sources (Spec b)) []) \<or>
   (\<exists>t. Target_ConfigMap (Target (Spec b)) = Some t \<and>
      (\<exists>k<length (Sources (Spec b)).
         f \<in> set (same_source_item ''configMap'' (ConfigMap (Sources (Spec b) ! k)) (Bundle_Name b) t
                    (Child (NewPath ''spec'' []) ''sources'' []) k))) \<or>
   (\<exists>t. Target_Secret (Target (Spec b)) = Some t \<and>
      (\<exists>k<length (Sources (Spec b)).
         f \<in> set (same_source_item ''secret'' (Secret (Sources (Spec b) ! k)) (Bundle_Name b) t
                    (Child (NewPath ''spec'' []) ''sources'' []) k))) \<or>
   f \<in> set (ValidateLabelSelector ext (NamespaceSelector (Target (Spec b)))
              (Child (NewPath ''spec'' []) ''target'' [''namespaceSelector'']))"
  unfolding validate_el_def Let_def
  by (cases "Target_ConfigMap (Target (Spec b))"; cases "Target_Secret (Target (Spec b))")
     (auto simp: configMap_loop_mem secret_loop_mem)

section \<open>Aggregation\<close>

lemma ToAggregate_loop_subset: "set (ToAggregate_loop ext seen list) \<subseteq> set list"
  by (induction list arbitrary: seen) auto

lemma ToAggregate_loop_text:
  "e \<in> set list \<Longrightarrow> Error_Error ext e \<notin> seen \<Longrightarrow>
   \<exists>e'\<in>set (ToAggregate_loop ext seen list). Error_Error ext e' = Error_Error ext e"
proof (induction list arbitrary: seen)
  case Nil
  then show ?case by simp
next
  case (Cons err list)
  show ?case
  proof (cases "Error_Error ext err = Error_Error ext e")
    case True
    with Cons.prems(2) show ?thesis by auto
  next
    case False
    with Cons.prems have "e \<in> set list" by auto
    show ?thesis
    proof (cases "Error_Error ext err \<in> seen")
      case True
      with Cons.IH [OF \<open>e \<in> set list\<close> Cons.prems(2)] show ?thesis by simp
    next
      case nseen: False
      from False Cons.prems(2) have "Error_Error ext e \<notin> insert (Error_Error ext err) seen" by auto
      from Cons.IH [OF \<open>e \<in> set list\<close> this] nseen show ?thesis by simp
    qed
  qed
qed

lemma ToAggregate_single: "ToAggregate ext [e] = Some (Aggregate [e])"
  by (simp add: ToAggregate_def NewAggregate_def)

lemma faults_of_NewAggregate: "faults_of (Return w (NewAggregate errs)) = errs"
  by (simp add: NewAggregate_def)

lemma faults_of_ToAggregate:
  "faults_of (Return w (ToAggregate ext list)) = ToAggregate_loop ext {} list"
  by (simp add: ToAggregate_def faults_of_NewAggregate)

lemma faults_of_validate:
  "faults_of (fst (validate v ext (BundleObject (Some b)) log)) =
   ToAggregate_loop ext {} (validate_el ext b)"
  by (simp add: validate_def faults_of_ToAggregate)

lemma snd_validate:
  "snd (validate v ext (BundleObject (Some b)) log) =
   log @ [Info 2 ''received validation request'' [(''name'', Bundle_Name b)]]"
  by (simp add: validate_def)

lemma aggregate_keeps_text:
  "e \<in> set (validate_el ext b) \<Longrightarrow>
   \<exists>e'\<in>set (faults_of (fst (validate v ext (BundleObject (Some b)) log))).
      Error_Error ext e' = Error_Error ext e"
  unfolding faults_of_validate by (rule ToAggregate_loop_text) simp_all

lemma aggregate_within_el:
  "e \<notin> set (validate_el ext b) \<Longrightarrow>
   e \<notin> set (faults_of (fst (validate v ext (BundleObject (Some b)) log)))"
  unfolding faults_of_validate using ToAggregate_loop_subset by blast

section \<open>Sources that name the target\<close>

lemma same_source_emitted:
  assumes i: "i < length (Sources (Spec b))"
    and tgt: "(if kind = ''configMap'' then Target_ConfigMap else Target_Secret) (Target (Spec b)) = Some t"
    and src: "(if kind = ''configMap'' then ConfigMap else Secret) (Sources (Spec b) ! i) = Some s"
    and kind: "kind = ''configMap'' \<or> kind = ''secret''"
    and c: "Name s = Bundle_Name b" "Key s = KeySelector_Key t"
  shows "same_source_fault i kind s \<in> set (validate_el ext b)"
proof -
  from kind show ?thesis
  proof
    assume k: "kind = ''configMap''"
    with i tgt src c have "\<exists>t. Target_ConfigMap (Target (Spec b)) = Some t \<and>
      (\<exists>k<length (Sources (Spec b)).
         same_source_fault i kind s \<in> set (same_source_item ''configMap'' (ConfigMap (Sources (Spec b) ! k)) (Bundle_Name b) t
                    (Child (NewPath ''spec'' []) ''sources'' []) k))"
      by (intro exI [of _ t] conjI exI [of _ i]) (simp_all add: same_source_item_Some)
    then show ?thesis by (simp only: validate_el_mem) blast
  next
    assume k: "kind = ''secret''"
    with i tgt src c have "\<exists>t. Target_Secret (Target (Spec b)) = Some t \<and>
      (\<exists>k<length (Sources (Spec b)).
         same_source_fault i kind s \<in> set (same_source_item ''secret'' (Secret (Sources (Spec b) ! k)) (Bundle_Name b) t
                    (Child (NewPath ''spec'' []) ''sources'' []) k))"
      by (intro exI [of _ t] conjI exI [of _ i]) (simp_all add: same_source_item_Some)
    then show ?thesis by (simp only: validate_el_mem) blast
  qed
qed

lemma same_source_origin:
  assumes vls: "\<And>ps p f. f \<in> set (ValidateLabelSelector ext ps p) \<Longrightarrow>
                  Detail f \<noteq> ''cannot define the same source as target''"
    and mem: "f \<in> set (validate_el ext b)"
    and d: "Detail f = ''cannot define the same source as target''"
  shows "(\<exists>t k s. k < length (Sources (Spec b)) \<and> Target_ConfigMap (Target (Spec b)) = Some t \<and>
            ConfigMap (Sources (Spec b) ! k) = Some s \<and> Name s = Bundle_Name b \<and>
            Key s = KeySelector_Key t \<and> f = same_source_fault k ''configMap'' s) \<or>
         (\<exists>t k s. k < length (Sources (Spec b)) \<and> Target_Secret (Target (Spec b)) = Some t \<and>
            Secret (Sources (Spec b) ! k) = Some s \<and> Name s = Bundle_Name b \<and>
            Key s = KeySelector_Key t \<and> f = same_source_fault k ''secret'' s)"
proof -
  have item: "\<And>kind sel t k. f \<in> set (same_source_item kind sel (Bundle_Name b) t
                    (Child (NewPath ''spec'' []) ''sources'' []) k) \<Longrightarrow>
       \<exists>s. sel = Some s \<and> Name s = Bundle_Name b \<and> Key s = KeySelector_Key t \<and>
           f = same_source_fault k kind s"
  proof -
    fix kind sel t k
    assume a: "f \<in> set (same_source_item kind sel (Bundle_Name b) t
                    (Child (NewPath ''spec'' []) ''sources'' []) k)"
    show "\<exists>s. sel = Some s \<and> Name s = Bundle_Name b \<and> Key s = KeySelector_Key t \<and>
           f = same_source_fault k kind s"
    proof (cases sel)
      case None
      with a show ?thesis by (simp add: same_source_item_None)
    next
      case (Some s)
      with a show ?thesis by (simp add: same_source_item_Some split: if_splits)
    qed
  qed
  have not_sel: "f \<notin> set (selectors_loop ext (NewPath ''spec'' []) 0 (Sources (Spec b)) [])"
  proof
    assume "f \<in> set (selectors_loop ext (NewPath ''spec'' []) 0 (Sources (Spec b)) [])"
    then have "f \<in> set [] \<or> (\<exists>ps p. f \<in> set (ValidateLabelSelector ext ps p))"
      by (rule selectors_loop_origin)
    with vls d show False by auto
  qed
  have not_ns: "f \<notin> set (ValidateLabelSelector ext (NamespaceSelector (Target (Spec b)))
              (Child (NewPath ''spec'' []) ''target'' [''namespaceSelector'']))"
    using vls d by blast
  from mem not_sel not_ns consider
    (cm) t k where "Target_ConfigMap (Target (Spec b)) = Some t" "k < length (Sources (Spec b))"
      "f \<in> set (same_source_item ''configMap'' (ConfigMap (Sources (Spec b) ! k)) (Bundle_Name b) t
                    (Child (NewPath ''spec'' []) ''sources'' []) k)"
  | (sec) t k where "Target_Secret (Target (Spec b)) = Some t" "k < length (Sources (Spec b))"
      "f \<in> set (same_source_item ''secret'' (Secret (Sources (Spec b) ! k)) (Bundle_Name b) t
                    (Child (NewPath ''spec'' []) ''sources'' []) k)"
    by (simp only: validate_el_mem) blast
  then show ?thesis
  proof cases
    case cm
    from item [OF cm(3)] cm(1,2) show ?thesis by blast
  next
    case sec
    from item [OF sec(3)] sec(1,2) show ?thesis by blast
  qed
qed

lemma same_source_prefix_absent:
  assumes vls: "\<And>ps p f. f \<in> set (ValidateLabelSelector ext ps p) \<Longrightarrow>
                  Detail f \<noteq> ''cannot define the same source as target''"
    and mem: "f \<in> set (validate_el ext b)"
    and d: "Detail f = ''cannot define the same source as target''"
    and kind: "kind = ''configMap'' \<or> kind = ''secret''"
    and fld: "Field f = ''spec.sources.['' @ Itoa i @ ''].'' @ kind @ rest"
  shows "\<exists>s t. (if kind = ''configMap'' then ConfigMap else Secret) (Sources (Spec b) ! i) = Some s \<and>
           (if kind = ''configMap'' then Target_ConfigMap else Target_Secret) (Target (Spec b)) = Some t \<and>
           Name s = Bundle_Name b \<and> Key s = KeySelector_Key t \<and> f = same_source_fault i kind s"
proof -
  from same_source_origin [OF vls mem d] show ?thesis
  proof
    assume "\<exists>t k s. k < length (Sources (Spec b)) \<and> Target_ConfigMap (Target (Spec b)) = Some t \<and>
            ConfigMap (Sources (Spec b) ! k) = Some s \<and> Name s = Bundle_Name b \<and>
            Key s = KeySelector_Key t \<and> f = same_source_fault k ''configMap'' s"
    then obtain t k s where h: "Target_ConfigMap (Target (Spec b)) = Some t"
      "ConfigMap (Sources (Spec b) ! k) = Some s" "Name s = Bundle_Name b"
      "Key s = KeySelector_Key t" "f = same_source_fault k ''configMap'' s"
      by blast
    from fld h(5) have "Field (same_source_fault k ''configMap'' s) =
        ''spec.sources.['' @ Itoa i @ '']'' @ (''.'' @ kind @ rest)" by simp
    then have ki: "k = i \<and> dotted ''configMap'' @ dotted (Name s) @ dotted (Key s) = ''.'' @ kind @ rest"
      by (rule same_source_fault_prefix_index)
    with kind have "kind = ''configMap''" by (auto simp: dotted_def)
    with ki h show ?thesis by auto
  next
    assume "\<exists>t k s. k < length (Sources (Spec b)) \<and> Target_Secret (Target (Spec b)) = Some t \<and>
            Secret (Sources (Spec b) ! k) = Some s \<and> Name s = Bundle_Name b \<and>
            Key s = KeySelector_Key t \<and> f = same_source_fault k ''secret'' s"
    then obtain t k s where h: "Target_Secret (Target (Spec b)) = Some t"
      "Secret (Sources (Spec b) ! k) = Some s" "Name s = Bundle_Name b"
      "Key s = KeySelector_Key t" "f = same_source_fault k ''secret'' s"
      by blast
    from fld h(5) have "Field (same_source_fault k ''secret'' s) =
        ''spec.sources.['' @ Itoa i @ '']'' @ (''.'' @ kind @ rest)" by simp
    then have ki: "k = i \<and> dotted ''secret'' @ dotted (Name s) @ dotted (Key s) = ''.'' @ kind @ rest"
      by (rule same_source_fault_prefix_index)
    with kind have "kind = ''secret''" by (auto simp: dotted_def)
    with ki h show ?thesis by auto
  qed
qed

section \<open>The example instance\<close>

lemma example_requirements_Detail:
  "f \<in> set (example_requirements p i reqs) \<Longrightarrow>
   Detail f = ''must be specified when operator is In or NotIn''"
  by (induction reqs arbitrary: i) (auto simp: Required_def split: if_splits)

lemma example_externals_Detail:
  "f \<in> set (ValidateLabelSelector example_externals ps p) \<Longrightarrow>
   Detail f \<noteq> ''cannot define the same source as target''"
proof -
  assume "f \<in> set (ValidateLabelSelector example_externals ps p)"
  then have "Detail f = ''must be specified when operator is In or NotIn''"
    by (cases ps) (auto simp: example_externals_def example_ValidateLabelSelector_def
        dest: example_requirements_Detail)
  then show ?thesis by simp
qed

lemma validate_el_example_passes:
  "validate_el example_externals
     (example_bundle n [example_defaultCAs] (example_target c s)) = []"
  unfolding validate_el_def Let_def
  by (cases c; cases s)
     (simp_all add: example_bundle_def example_target_def example_defaultCAs_def
        example_externals_def example_ValidateLabelSelector_def)

section \<open>The checks of the resource definition: auxiliary facts\<close>

lemma jks_keys_Some:
  "Target_AdditionalFormats target = Some formats \<Longrightarrow> AdditionalFormats_JKS formats = Some jks \<Longrightarrow>
   jks_keys target = [KeySelector_Key (JKS_KeySelector jks)]"
  by (simp add: jks_keys_def)

lemma pkcs12_keys_Some:
  "Target_AdditionalFormats target = Some formats \<Longrightarrow> AdditionalFormats_PKCS12 formats = Some pkcs12 \<Longrightarrow>
   pkcs12_keys target = [KeySelector_Key (PKCS12_KeySelector pkcs12)]"
  by (simp add: pkcs12_keys_def)

lemma differ_fault:
  "a \<in> set (additional_format_keys target) \<Longrightarrow> a \<in> set (primary_keys target) \<Longrightarrow>
   validate_additional_format_keys_differ target =
     [\<lparr>Type = ErrorTypeInvalid, Field = ''spec.target'', BadValue = ''object'',
        Detail = ''additional format keys must be different from configMap/secret keys''\<rparr>]"
  by (auto simp: validate_additional_format_keys_differ_def Invalid_def Field_target)

section \<open>Deletion\<close>

text \<open>
  C8. \<open>ValidateDelete\<close> returns nil warnings and a nil error for every object it is
  given, whatever the object is, and writes nothing to the log: a deletion is admitted
  without any validation.
\<close>

theorem ValidateDelete_always_allows:
  "ValidateDelete v ext obj log = (Return [] None, log)"
  by (simp add: ValidateDelete_def)

section \<open>Updates\<close>

text \<open>
  C1, as amended. If the previous bundle has a target configMap and the proposed one
  has none, \<open>ValidateUpdate\<close> returns the single fault \<open>target configMap removal is
  not allowed\<close> at \<open>spec.target.configmap\<close>, whatever else the proposed bundle holds
  and whatever the selector validator would report, and leaves the log as it was:
  \<open>validate\<close>, which always writes to the log, has not run. The same holds for the
  target secret with \<open>target secret removal is not allowed\<close> at \<open>spec.target.secret\<close>,
  provided the rule for the configMap does not apply to the same update.
\<close>

theorem target_removal_rejected:
  "(Target_ConfigMap (Target (Spec old)) \<noteq> None \<and> Target_ConfigMap (Target (Spec new)) = None \<longrightarrow>
      ValidateUpdate v ext (BundleObject (Some old)) (BundleObject (Some new)) log =
        (Return [] (Some (Aggregate
           [\<lparr>Type = ErrorTypeInvalid, Field = ''spec.target.configmap'', BadValue = [],
             Detail = ''target configMap removal is not allowed''\<rparr>])), log)) \<and>
   (\<not> (Target_ConfigMap (Target (Spec old)) \<noteq> None \<and> Target_ConfigMap (Target (Spec new)) = None) \<and>
    Target_Secret (Target (Spec old)) \<noteq> None \<and> Target_Secret (Target (Spec new)) = None \<longrightarrow>
      ValidateUpdate v ext (BundleObject (Some old)) (BundleObject (Some new)) log =
        (Return [] (Some (Aggregate
           [\<lparr>Type = ErrorTypeInvalid, Field = ''spec.target.secret'', BadValue = [],
             Detail = ''target secret removal is not allowed''\<rparr>])), log)) \<and>
   snd (validate v ext (BundleObject (Some new)) log) \<noteq> log"
proof (intro conjI impI)
  assume "Target_ConfigMap (Target (Spec old)) \<noteq> None \<and> Target_ConfigMap (Target (Spec new)) = None"
  then have "target_removed Target_ConfigMap (Some old) (Some new) = Some True"
    by (simp add: target_removed_def)
  then show "ValidateUpdate v ext (BundleObject (Some old)) (BundleObject (Some new)) log =
        (Return [] (Some (Aggregate
           [\<lparr>Type = ErrorTypeInvalid, Field = ''spec.target.configmap'', BadValue = [],
             Detail = ''target configMap removal is not allowed''\<rparr>])), log)"
    by (simp add: ValidateUpdate_def ToAggregate_single Invalid_configmap)
next
  assume a: "\<not> (Target_ConfigMap (Target (Spec old)) \<noteq> None \<and> Target_ConfigMap (Target (Spec new)) = None) \<and>
    Target_Secret (Target (Spec old)) \<noteq> None \<and> Target_Secret (Target (Spec new)) = None"
  then have "target_removed Target_ConfigMap (Some old) (Some new) = Some False"
    by (auto simp: target_removed_def)
  moreover from a have "target_removed Target_Secret (Some old) (Some new) = Some True"
    by (simp add: target_removed_def)
  ultimately show "ValidateUpdate v ext (BundleObject (Some old)) (BundleObject (Some new)) log =
        (Return [] (Some (Aggregate
           [\<lparr>Type = ErrorTypeInvalid, Field = ''spec.target.secret'', BadValue = [],
             Detail = ''target secret removal is not allowed''\<rparr>])), log)"
    by (simp add: ValidateUpdate_def ToAggregate_single Invalid_secret)
next
  show "snd (validate v ext (BundleObject (Some new)) log) \<noteq> log"
    by (simp add: snd_validate)
qed

text \<open>
  An instance: the configMap target is replaced by a secret target in a bundle that
  \<open>validate\<close> accepts as it is; the update is rejected with the one fault, and
  nothing is logged. The other way round the secret is the target that is removed.
\<close>

theorem target_removal_rejected_witness:
  "ValidateUpdate Validator example_externals
     (BundleObject (Some (example_bundle ''b'' [example_defaultCAs]
        (example_target (Some (example_key ''ca-bundle.crt'')) None))))
     (BundleObject (Some (example_bundle ''b'' [example_defaultCAs]
        (example_target None (Some (example_key ''ca-bundle.crt''))))))
     [] =
   (Return [] (Some (Aggregate
      [\<lparr>Type = ErrorTypeInvalid, Field = ''spec.target.configmap'', BadValue = [],
        Detail = ''target configMap removal is not allowed''\<rparr>])), []) \<and>
   fst (validate Validator example_externals
     (BundleObject (Some (example_bundle ''b'' [example_defaultCAs]
        (example_target None (Some (example_key ''ca-bundle.crt''))))))
     []) = Return [] None \<and>
   ValidateUpdate Validator example_externals
     (BundleObject (Some (example_bundle ''b'' [example_defaultCAs]
        (example_target None (Some (example_key ''ca-bundle.crt''))))))
     (BundleObject (Some (example_bundle ''b'' [example_defaultCAs]
        (example_target (Some (example_key ''ca-bundle.crt'')) None))))
     [] =
   (Return [] (Some (Aggregate
      [\<lparr>Type = ErrorTypeInvalid, Field = ''spec.target.secret'', BadValue = [],
        Detail = ''target secret removal is not allowed''\<rparr>])), [])"
proof -
  let ?cm = "example_bundle ''b'' [example_defaultCAs]
        (example_target (Some (example_key ''ca-bundle.crt'')) None)"
  let ?sec = "example_bundle ''b'' [example_defaultCAs]
        (example_target None (Some (example_key ''ca-bundle.crt'')))"
  have 1: "ValidateUpdate Validator example_externals (BundleObject (Some ?cm))
             (BundleObject (Some ?sec)) [] =
           (Return [] (Some (Aggregate
              [\<lparr>Type = ErrorTypeInvalid, Field = ''spec.target.configmap'', BadValue = [],
                Detail = ''target configMap removal is not allowed''\<rparr>])), [])"
    using target_removal_rejected [of ?cm ?sec Validator example_externals "[]"]
    by (simp add: example_bundle_def example_target_def)
  have 2: "fst (validate Validator example_externals (BundleObject (Some ?sec)) []) = Return [] None"
    by (simp add: validate_def validate_el_example_passes ToAggregate_def)
  have 3: "ValidateUpdate Validator example_externals (BundleObject (Some ?sec))
             (BundleObject (Some ?cm)) [] =
           (Return [] (Some (Aggregate
              [\<lparr>Type = ErrorTypeInvalid, Field = ''spec.target.secret'', BadValue = [],
                Detail = ''target secret removal is not allowed''\<rparr>])), [])"
    using target_removal_rejected [of ?sec ?cm Validator example_externals "[]"]
    by (simp add: example_bundle_def example_target_def)
  from 1 2 3 show ?thesis by blast
qed

text \<open>
  C1 as it was stated fails where both targets are removed at once: the previous
  bundle has a target secret and the proposed one has none, yet the fault returned
  is the one for the configMap, not \<open>target secret removal is not allowed\<close>.
\<close>

theorem secret_removal_message_counterexample:
  "Target_Secret (Target (Spec (example_bundle ''b'' [example_defaultCAs]
      (example_target (Some (example_key ''c'')) (Some (example_key ''s'')))))) \<noteq> None \<and>
   Target_Secret (Target (Spec (example_bundle ''b'' [example_defaultCAs]
      (example_target None None)))) = None \<and>
   faults_of (fst (ValidateUpdate Validator example_externals
     (BundleObject (Some (example_bundle ''b'' [example_defaultCAs]
        (example_target (Some (example_key ''c'')) (Some (example_key ''s''))))))
     (BundleObject (Some (example_bundle ''b'' [example_defaultCAs]
        (example_target None None))))
     [])) =
     [\<lparr>Type = ErrorTypeInvalid, Field = ''spec.target.configmap'', BadValue = [],
        Detail = ''target configMap removal is not allowed''\<rparr>] \<and>
   fst (ValidateUpdate Validator example_externals
     (BundleObject (Some (example_bundle ''b'' [example_defaultCAs]
        (example_target (Some (example_key ''c'')) (Some (example_key ''s''))))))
     (BundleObject (Some (example_bundle ''b'' [example_defaultCAs]
        (example_target None None))))
     []) \<noteq>
   Return [] (Some (Aggregate
      [\<lparr>Type = ErrorTypeInvalid, Field = ''spec.target.secret'', BadValue = [],
        Detail = ''target secret removal is not allowed''\<rparr>]))"
  by (simp add: ValidateUpdate_def target_removed_def ToAggregate_single Invalid_configmap
      example_bundle_def example_target_def)

text \<open>
  C9. When the previous bundle has both targets and the proposed one has neither,
  the returned aggregate holds exactly one fault, the removal of the configMap at
  \<open>spec.target.configmap\<close>; the fault for the secret is not in it.
\<close>

theorem both_targets_removed:
  assumes "Target_ConfigMap (Target (Spec old)) \<noteq> None" "Target_Secret (Target (Spec old)) \<noteq> None"
    and "Target_ConfigMap (Target (Spec new)) = None" "Target_Secret (Target (Spec new)) = None"
  shows "faults_of (fst (ValidateUpdate v ext (BundleObject (Some old)) (BundleObject (Some new)) log)) =
           [\<lparr>Type = ErrorTypeInvalid, Field = ''spec.target.configmap'', BadValue = [],
             Detail = ''target configMap removal is not allowed''\<rparr>] \<and>
         \<lparr>Type = ErrorTypeInvalid, Field = ''spec.target.secret'', BadValue = [],
           Detail = ''target secret removal is not allowed''\<rparr>
           \<notin> set (faults_of (fst (ValidateUpdate v ext (BundleObject (Some old)) (BundleObject (Some new)) log)))"
proof -
  from assms have "target_removed Target_ConfigMap (Some old) (Some new) = Some True"
    by (simp add: target_removed_def)
  then have "ValidateUpdate v ext (BundleObject (Some old)) (BundleObject (Some new)) log =
        (Return [] (Some (Aggregate
           [\<lparr>Type = ErrorTypeInvalid, Field = ''spec.target.configmap'', BadValue = [],
             Detail = ''target configMap removal is not allowed''\<rparr>])), log)"
    by (simp add: ValidateUpdate_def ToAggregate_single Invalid_configmap)
  then show ?thesis by simp
qed

text \<open>An instance: a bundle with both targets, updated to one with none.\<close>

theorem both_targets_removed_witness:
  "faults_of (fst (ValidateUpdate Validator example_externals
     (BundleObject (Some (example_bundle ''b'' [example_defaultCAs]
        (example_target (Some (example_key ''c'')) (Some (example_key ''s''))))))
     (BundleObject (Some (example_bundle ''b'' [example_defaultCAs]
        (example_target None None))))
     [])) =
     [\<lparr>Type = ErrorTypeInvalid, Field = ''spec.target.configmap'', BadValue = [],
        Detail = ''target configMap removal is not allowed''\<rparr>]"
  using both_targets_removed [of
      "example_bundle ''b'' [example_defaultCAs]
        (example_target (Some (example_key ''c'')) (Some (example_key ''s'')))"
      "example_bundle ''b'' [example_defaultCAs] (example_target None None)"
      Validator example_externals "[]"]
  by (simp add: example_bundle_def example_target_def)

text \<open>
  C10. Two previous bundles that agree on whether the target configMap is nil and on
  whether the target secret is nil give the same result of \<open>ValidateUpdate\<close>, for
  every proposed object, selector validator and log.
\<close>

theorem previous_spec_only_through_targets:
  assumes "Target_ConfigMap (Target (Spec old1)) = None \<longleftrightarrow> Target_ConfigMap (Target (Spec old2)) = None"
    and "Target_Secret (Target (Spec old1)) = None \<longleftrightarrow> Target_Secret (Target (Spec old2)) = None"
  shows "ValidateUpdate v ext (BundleObject (Some old1)) newObj log =
         ValidateUpdate v ext (BundleObject (Some old2)) newObj log"
proof -
  have c: "target_removed Target_ConfigMap (Some old1) newBundle =
           target_removed Target_ConfigMap (Some old2) newBundle" for newBundle
    using assms(1) by (simp add: target_removed_def)
  have s: "target_removed Target_Secret (Some old1) newBundle =
           target_removed Target_Secret (Some old2) newBundle" for newBundle
    using assms(2) by (simp add: target_removed_def)
  show ?thesis
    unfolding ValidateUpdate_def Object.case c s by (rule refl)
qed

text \<open>
  An instance: two previous bundles with other names, sources and keys, both with a
  target configMap and no target secret, and a proposed bundle that names itself as
  a source.
\<close>

theorem previous_spec_only_through_targets_witness:
  "ValidateUpdate Validator example_externals
     (BundleObject (Some (example_bundle ''first'' [example_defaultCAs]
        (example_target (Some (example_key ''x'')) None))))
     (BundleObject (Some (example_bundle ''b'' [example_configMap_source (example_selector ''b'' ''k'')]
        (example_target (Some (example_key ''k'')) None))))
     [] =
   ValidateUpdate Validator example_externals
     (BundleObject (Some (example_bundle ''second''
        [example_configMap_source (example_selector ''ca'' ''ca.crt''), example_defaultCAs]
        (example_target (Some (example_key ''y'')) None))))
     (BundleObject (Some (example_bundle ''b'' [example_configMap_source (example_selector ''b'' ''k'')]
        (example_target (Some (example_key ''k'')) None))))
     []"
  by (rule previous_spec_only_through_targets) (simp_all add: example_bundle_def example_target_def)

section \<open>Validation\<close>


text \<open>
  C7. For a bundle without sources \<open>validate\<close> returns: it does not panic, its
  faults are those of the namespace selector alone, and it has written its one log
  entry.
\<close>

theorem validate_no_sources:
  assumes "Sources (Spec bundle) = []"
  shows "validate v ext (BundleObject (Some bundle)) log =
           (Return []
              (ToAggregate ext
                 (ValidateLabelSelector ext (NamespaceSelector (Target (Spec bundle)))
                    (Child (NewPath ''spec'' []) ''target'' [''namespaceSelector'']))),
            log @ [Info 2 ''received validation request'' [(''name'', Bundle_Name bundle)]]) \<and>
         fst (validate v ext (BundleObject (Some bundle)) log) \<noteq> Panic"
proof -
  from assms have "validate_el ext bundle =
      ValidateLabelSelector ext (NamespaceSelector (Target (Spec bundle)))
        (Child (NewPath ''spec'' []) ''target'' [''namespaceSelector''])"
    unfolding validate_el_def Let_def
    by (cases "Target_ConfigMap (Target (Spec bundle))"; cases "Target_Secret (Target (Spec bundle))")
       simp_all
  then show ?thesis by (simp add: validate_def)
qed

text \<open>An instance: a bundle with a target configMap and no sources.\<close>

theorem validate_no_sources_witness:
  "validate Validator example_externals
     (BundleObject (Some (example_bundle ''b'' [] (example_target (Some (example_key ''k'')) None))))
     [] =
   (Return [] None, [Info 2 ''received validation request'' [(''name'', ''b'')]])"
  using validate_no_sources [of
      "example_bundle ''b'' [] (example_target (Some (example_key ''k'')) None)"
      Validator example_externals "[]"]
  by (simp add: example_bundle_def example_target_def example_externals_def
      example_ValidateLabelSelector_def ToAggregate_def)

text \<open>
  C2. Let source \<open>i\<close> of a bundle refer to a configMap. If the bundle has a target
  configMap, and the source's name is the bundle's name and its key the target's key,
  then \<open>validate\<close> appends the forbidden-field fault \<open>cannot define the same source as
  target\<close> with the field \<open>spec.sources.[i].configMap.<name>.<key>\<close> to its error
  list, and the aggregate it returns holds an error of that text. The same holds for a
  source that refers to a secret and the target secret, with \<open>secret\<close> in the field;
  neither rule looks at the other kind. Conversely, if the selector validator never
  reports this detail: every fault with this detail in the error list is the fault of
  some source that names the bundle with the key of the target of its kind; and when
  source \<open>i\<close> does not (its key differs from the target's, its name is another, or the
  target is unset), no fault with this detail has a field that begins with
  \<open>spec.sources.[i].configMap\<close> (or \<open>spec.sources.[i].secret\<close>), in the error
  list or in the aggregate.
\<close>

theorem same_source_as_target:
  assumes i: "i < length (Sources (Spec bundle))"
  shows
    "(\<forall>cm t. ConfigMap (Sources (Spec bundle) ! i) = Some cm \<and>
         Target_ConfigMap (Target (Spec bundle)) = Some t \<and>
         Name cm = Bundle_Name bundle \<and> Key cm = KeySelector_Key t \<longrightarrow>
         \<lparr>Type = ErrorTypeForbidden,
          Field = ''spec.sources.['' @ Itoa i @ ''].configMap'' @
                  (if Name cm \<noteq> [] then ''.'' @ Name cm else ''[]'') @
                  (if Key cm \<noteq> [] then ''.'' @ Key cm else ''[]''),
          BadValue = [], Detail = ''cannot define the same source as target''\<rparr>
           \<in> set (validate_el ext bundle) \<and>
         (\<exists>e\<in>set (faults_of (fst (validate v ext (BundleObject (Some bundle)) log))).
            Error_Error ext e = Error_Error ext
              \<lparr>Type = ErrorTypeForbidden,
               Field = ''spec.sources.['' @ Itoa i @ ''].configMap'' @
                       (if Name cm \<noteq> [] then ''.'' @ Name cm else ''[]'') @
                       (if Key cm \<noteq> [] then ''.'' @ Key cm else ''[]''),
               BadValue = [], Detail = ''cannot define the same source as target''\<rparr>)) \<and>
     (\<forall>sec t. Secret (Sources (Spec bundle) ! i) = Some sec \<and>
         Target_Secret (Target (Spec bundle)) = Some t \<and>
         Name sec = Bundle_Name bundle \<and> Key sec = KeySelector_Key t \<longrightarrow>
         \<lparr>Type = ErrorTypeForbidden,
          Field = ''spec.sources.['' @ Itoa i @ ''].secret'' @
                  (if Name sec \<noteq> [] then ''.'' @ Name sec else ''[]'') @
                  (if Key sec \<noteq> [] then ''.'' @ Key sec else ''[]''),
          BadValue = [], Detail = ''cannot define the same source as target''\<rparr>
           \<in> set (validate_el ext bundle) \<and>
         (\<exists>e\<in>set (faults_of (fst (validate v ext (BundleObject (Some bundle)) log))).
            Error_Error ext e = Error_Error ext
              \<lparr>Type = ErrorTypeForbidden,
               Field = ''spec.sources.['' @ Itoa i @ ''].secret'' @
                       (if Name sec \<noteq> [] then ''.'' @ Name sec else ''[]'') @
                       (if Key sec \<noteq> [] then ''.'' @ Key sec else ''[]''),
               BadValue = [], Detail = ''cannot define the same source as target''\<rparr>)) \<and>
     ((\<forall>ps p. \<forall>f\<in>set (ValidateLabelSelector ext ps p).
          Detail f \<noteq> ''cannot define the same source as target'') \<longrightarrow>
      (\<forall>f\<in>set (validate_el ext bundle).
          Detail f = ''cannot define the same source as target'' \<longrightarrow>
          (\<exists>k cm t. k < length (Sources (Spec bundle)) \<and>
             ConfigMap (Sources (Spec bundle) ! k) = Some cm \<and>
             Target_ConfigMap (Target (Spec bundle)) = Some t \<and>
             Name cm = Bundle_Name bundle \<and> Key cm = KeySelector_Key t \<and>
             f = \<lparr>Type = ErrorTypeForbidden,
                  Field = ''spec.sources.['' @ Itoa k @ ''].configMap'' @
                          (if Name cm \<noteq> [] then ''.'' @ Name cm else ''[]'') @
                          (if Key cm \<noteq> [] then ''.'' @ Key cm else ''[]''),
                  BadValue = [], Detail = ''cannot define the same source as target''\<rparr>) \<or>
          (\<exists>k sec t. k < length (Sources (Spec bundle)) \<and>
             Secret (Sources (Spec bundle) ! k) = Some sec \<and>
             Target_Secret (Target (Spec bundle)) = Some t \<and>
             Name sec = Bundle_Name bundle \<and> Key sec = KeySelector_Key t \<and>
             f = \<lparr>Type = ErrorTypeForbidden,
                  Field = ''spec.sources.['' @ Itoa k @ ''].secret'' @
                          (if Name sec \<noteq> [] then ''.'' @ Name sec else ''[]'') @
                          (if Key sec \<noteq> [] then ''.'' @ Key sec else ''[]''),
                  BadValue = [], Detail = ''cannot define the same source as target''\<rparr>)) \<and>
      (\<not> (\<exists>cm t. ConfigMap (Sources (Spec bundle) ! i) = Some cm \<and>
              Target_ConfigMap (Target (Spec bundle)) = Some t \<and>
              Name cm = Bundle_Name bundle \<and> Key cm = KeySelector_Key t) \<longrightarrow>
       (\<forall>f rest. Detail f = ''cannot define the same source as target'' \<and>
          Field f = ''spec.sources.['' @ Itoa i @ ''].configMap'' @ rest \<longrightarrow>
          f \<notin> set (validate_el ext bundle) \<and>
          f \<notin> set (faults_of (fst (validate v ext (BundleObject (Some bundle)) log))))) \<and>
      (\<not> (\<exists>sec t. Secret (Sources (Spec bundle) ! i) = Some sec \<and>
              Target_Secret (Target (Spec bundle)) = Some t \<and>
              Name sec = Bundle_Name bundle \<and> Key sec = KeySelector_Key t) \<longrightarrow>
       (\<forall>f rest. Detail f = ''cannot define the same source as target'' \<and>
          Field f = ''spec.sources.['' @ Itoa i @ ''].secret'' @ rest \<longrightarrow>
          f \<notin> set (validate_el ext bundle) \<and>
          f \<notin> set (faults_of (fst (validate v ext (BundleObject (Some bundle)) log))))))"
  (is "?cm \<and> ?sec \<and> (?vls \<longrightarrow> ?origin \<and> ?nocm \<and> ?nosec)")
proof (intro conjI)
  show ?cm
  proof (intro allI impI)
    fix cm t
    assume a: "ConfigMap (Sources (Spec bundle) ! i) = Some cm \<and>
         Target_ConfigMap (Target (Spec bundle)) = Some t \<and>
         Name cm = Bundle_Name bundle \<and> Key cm = KeySelector_Key t"
    with i have m: "same_source_fault i ''configMap'' cm \<in> set (validate_el ext bundle)"
      by (intro same_source_emitted [where t = t]) simp_all
    then have "\<exists>e\<in>set (faults_of (fst (validate v ext (BundleObject (Some bundle)) log))).
            Error_Error ext e = Error_Error ext (same_source_fault i ''configMap'' cm)"
      by (rule aggregate_keeps_text)
    with m show "\<lparr>Type = ErrorTypeForbidden,
          Field = ''spec.sources.['' @ Itoa i @ ''].configMap'' @
                  (if Name cm \<noteq> [] then ''.'' @ Name cm else ''[]'') @
                  (if Key cm \<noteq> [] then ''.'' @ Key cm else ''[]''),
          BadValue = [], Detail = ''cannot define the same source as target''\<rparr>
           \<in> set (validate_el ext bundle) \<and>
         (\<exists>e\<in>set (faults_of (fst (validate v ext (BundleObject (Some bundle)) log))).
            Error_Error ext e = Error_Error ext
              \<lparr>Type = ErrorTypeForbidden,
               Field = ''spec.sources.['' @ Itoa i @ ''].configMap'' @
                       (if Name cm \<noteq> [] then ''.'' @ Name cm else ''[]'') @
                       (if Key cm \<noteq> [] then ''.'' @ Key cm else ''[]''),
               BadValue = [], Detail = ''cannot define the same source as target''\<rparr>)"
      by (simp only: same_source_fault_configMap) 
  qed
next
  show ?sec
  proof (intro allI impI)
    fix sec t
    assume a: "Secret (Sources (Spec bundle) ! i) = Some sec \<and>
         Target_Secret (Target (Spec bundle)) = Some t \<and>
         Name sec = Bundle_Name bundle \<and> Key sec = KeySelector_Key t"
    with i have m: "same_source_fault i ''secret'' sec \<in> set (validate_el ext bundle)"
      by (intro same_source_emitted [where t = t]) simp_all
    then have "\<exists>e\<in>set (faults_of (fst (validate v ext (BundleObject (Some bundle)) log))).
            Error_Error ext e = Error_Error ext (same_source_fault i ''secret'' sec)"
      by (rule aggregate_keeps_text)
    with m show "\<lparr>Type = ErrorTypeForbidden,
          Field = ''spec.sources.['' @ Itoa i @ ''].secret'' @
                  (if Name sec \<noteq> [] then ''.'' @ Name sec else ''[]'') @
                  (if Key sec \<noteq> [] then ''.'' @ Key sec else ''[]''),
          BadValue = [], Detail = ''cannot define the same source as target''\<rparr>
           \<in> set (validate_el ext bundle) \<and>
         (\<exists>e\<in>set (faults_of (fst (validate v ext (BundleObject (Some bundle)) log))).
            Error_Error ext e = Error_Error ext
              \<lparr>Type = ErrorTypeForbidden,
               Field = ''spec.sources.['' @ Itoa i @ ''].secret'' @
                       (if Name sec \<noteq> [] then ''.'' @ Name sec else ''[]'') @
                       (if Key sec \<noteq> [] then ''.'' @ Key sec else ''[]''),
               BadValue = [], Detail = ''cannot define the same source as target''\<rparr>)"
      by (simp only: same_source_fault_secret)
  qed
next
  show "?vls \<longrightarrow> ?origin \<and> ?nocm \<and> ?nosec"
  proof (rule impI, intro conjI)
  assume "?vls"
  then have vls: "\<And>ps p f. f \<in> set (ValidateLabelSelector ext ps p) \<Longrightarrow>
                  Detail f \<noteq> ''cannot define the same source as target''"
    by blast
  show ?origin
  proof (intro ballI impI)
    fix f
    assume "f \<in> set (validate_el ext bundle)"
      and "Detail f = ''cannot define the same source as target''"
    then have "(\<exists>t k s. k < length (Sources (Spec bundle)) \<and>
            Target_ConfigMap (Target (Spec bundle)) = Some t \<and>
            ConfigMap (Sources (Spec bundle) ! k) = Some s \<and> Name s = Bundle_Name bundle \<and>
            Key s = KeySelector_Key t \<and> f = same_source_fault k ''configMap'' s) \<or>
         (\<exists>t k s. k < length (Sources (Spec bundle)) \<and>
            Target_Secret (Target (Spec bundle)) = Some t \<and>
            Secret (Sources (Spec bundle) ! k) = Some s \<and> Name s = Bundle_Name bundle \<and>
            Key s = KeySelector_Key t \<and> f = same_source_fault k ''secret'' s)"
      by (intro same_source_origin [where ext = ext] vls)
    then show "(\<exists>k cm t. k < length (Sources (Spec bundle)) \<and>
             ConfigMap (Sources (Spec bundle) ! k) = Some cm \<and>
             Target_ConfigMap (Target (Spec bundle)) = Some t \<and>
             Name cm = Bundle_Name bundle \<and> Key cm = KeySelector_Key t \<and>
             f = \<lparr>Type = ErrorTypeForbidden,
                  Field = ''spec.sources.['' @ Itoa k @ ''].configMap'' @
                          (if Name cm \<noteq> [] then ''.'' @ Name cm else ''[]'') @
                          (if Key cm \<noteq> [] then ''.'' @ Key cm else ''[]''),
                  BadValue = [], Detail = ''cannot define the same source as target''\<rparr>) \<or>
          (\<exists>k sec t. k < length (Sources (Spec bundle)) \<and>
             Secret (Sources (Spec bundle) ! k) = Some sec \<and>
             Target_Secret (Target (Spec bundle)) = Some t \<and>
             Name sec = Bundle_Name bundle \<and> Key sec = KeySelector_Key t \<and>
             f = \<lparr>Type = ErrorTypeForbidden,
                  Field = ''spec.sources.['' @ Itoa k @ ''].secret'' @
                          (if Name sec \<noteq> [] then ''.'' @ Name sec else ''[]'') @
                          (if Key sec \<noteq> [] then ''.'' @ Key sec else ''[]''),
                  BadValue = [], Detail = ''cannot define the same source as target''\<rparr>)"
      unfolding same_source_fault_configMap same_source_fault_secret by blast
  qed
  show ?nocm
  proof (intro allI impI)
    fix f :: Error and rest :: string
    assume n: "\<not> (\<exists>cm t. ConfigMap (Sources (Spec bundle) ! i) = Some cm \<and>
              Target_ConfigMap (Target (Spec bundle)) = Some t \<and>
              Name cm = Bundle_Name bundle \<and> Key cm = KeySelector_Key t)"
      and f: "Detail f = ''cannot define the same source as target'' \<and>
          Field f = ''spec.sources.['' @ Itoa i @ ''].configMap'' @ rest"
    have no: "f \<notin> set (validate_el ext bundle)"
    proof
      assume m: "f \<in> set (validate_el ext bundle)"
      from f have "Field f = ''spec.sources.['' @ Itoa i @ ''].'' @ ''configMap'' @ rest" by simp
      with m f have "\<exists>s t. ConfigMap (Sources (Spec bundle) ! i) = Some s \<and>
           Target_ConfigMap (Target (Spec bundle)) = Some t \<and>
           Name s = Bundle_Name bundle \<and> Key s = KeySelector_Key t \<and>
           f = same_source_fault i ''configMap'' s"
        using same_source_prefix_absent [where ext = ext and b = "bundle" and f = f
            and kind = "''configMap''" and i = i and rest = rest] vls
        by simp
      with n show False by blast
    qed
    then show "f \<notin> set (validate_el ext bundle) \<and>
          f \<notin> set (faults_of (fst (validate v ext (BundleObject (Some bundle)) log)))"
      by (simp add: aggregate_within_el)
  qed
  show ?nosec
  proof (intro allI impI)
    fix f :: Error and rest :: string
    assume n: "\<not> (\<exists>sec t. Secret (Sources (Spec bundle) ! i) = Some sec \<and>
              Target_Secret (Target (Spec bundle)) = Some t \<and>
              Name sec = Bundle_Name bundle \<and> Key sec = KeySelector_Key t)"
      and f: "Detail f = ''cannot define the same source as target'' \<and>
          Field f = ''spec.sources.['' @ Itoa i @ ''].secret'' @ rest"
    have no: "f \<notin> set (validate_el ext bundle)"
    proof
      assume m: "f \<in> set (validate_el ext bundle)"
      from f have "Field f = ''spec.sources.['' @ Itoa i @ ''].'' @ ''secret'' @ rest" by simp
      with m f have "\<exists>s t. Secret (Sources (Spec bundle) ! i) = Some s \<and>
           Target_Secret (Target (Spec bundle)) = Some t \<and>
           Name s = Bundle_Name bundle \<and> Key s = KeySelector_Key t \<and>
           f = same_source_fault i ''secret'' s"
        using same_source_prefix_absent [where ext = ext and b = "bundle" and f = f
            and kind = "''secret''" and i = i and rest = rest] vls
        by simp
      with n show False by blast
    qed
    then show "f \<notin> set (validate_el ext bundle) \<and>
          f \<notin> set (faults_of (fst (validate v ext (BundleObject (Some bundle)) log)))"
      by (simp add: aggregate_within_el)
  qed
qed
qed

text \<open>
  Instances: a bundle \<open>b\<close> whose one source is the key \<open>k\<close> of the configMap \<open>b\<close>,
  with target key \<open>k\<close>, gets the fault at \<open>spec.sources.[0].configMap.b.k\<close>; a
  thirteenth source that is the key \<open>k\<close> of the secret \<open>b\<close>, with target secret key
  \<open>k\<close>, gets it at \<open>spec.sources.[12].secret.b.k\<close>. With the source key \<open>other\<close>
  there is no fault, neither with the source's key nor with the target's key in the
  field; and a secret source gets none against a target configMap.
\<close>

theorem same_source_as_target_witness:
  "\<lparr>Type = ErrorTypeForbidden, Field = ''spec.sources.[0].configMap.b.k'', BadValue = [],
     Detail = ''cannot define the same source as target''\<rparr>
     \<in> set (validate_el example_externals
         (example_bundle ''b'' [example_configMap_source (example_selector ''b'' ''k'')]
            (example_target (Some (example_key ''k'')) None))) \<and>
   \<lparr>Type = ErrorTypeForbidden, Field = ''spec.sources.[12].secret.b.k'', BadValue = [],
     Detail = ''cannot define the same source as target''\<rparr>
     \<in> set (validate_el example_externals
         (example_bundle ''b''
            (replicate 12 example_defaultCAs @ [example_secret_source (example_selector ''b'' ''k'')])
            (example_target None (Some (example_key ''k''))))) \<and>
   \<lparr>Type = ErrorTypeForbidden, Field = ''spec.sources.[0].configMap.b.other'', BadValue = [],
     Detail = ''cannot define the same source as target''\<rparr>
     \<notin> set (validate_el example_externals
         (example_bundle ''b'' [example_configMap_source (example_selector ''b'' ''other'')]
            (example_target (Some (example_key ''k'')) None))) \<and>
   \<lparr>Type = ErrorTypeForbidden, Field = ''spec.sources.[0].configMap.b.k'', BadValue = [],
     Detail = ''cannot define the same source as target''\<rparr>
     \<notin> set (validate_el example_externals
         (example_bundle ''b'' [example_configMap_source (example_selector ''b'' ''other'')]
            (example_target (Some (example_key ''k'')) None))) \<and>
   \<lparr>Type = ErrorTypeForbidden, Field = ''spec.sources.[0].secret.b.k'', BadValue = [],
     Detail = ''cannot define the same source as target''\<rparr>
     \<notin> set (validate_el example_externals
         (example_bundle ''b'' [example_secret_source (example_selector ''b'' ''k'')]
            (example_target (Some (example_key ''k'')) None)))"
proof -
  have vls: "\<forall>ps p. \<forall>f\<in>set (ValidateLabelSelector example_externals ps p).
          Detail f \<noteq> ''cannot define the same source as target''"
    using example_externals_Detail by blast
  let ?b1 = "example_bundle ''b'' [example_configMap_source (example_selector ''b'' ''k'')]
            (example_target (Some (example_key ''k'')) None)"
  let ?b2 = "example_bundle ''b'' [example_configMap_source (example_selector ''b'' ''other'')]
            (example_target (Some (example_key ''k'')) None)"
  let ?b3 = "example_bundle ''b''
            (replicate 12 example_defaultCAs @ [example_secret_source (example_selector ''b'' ''k'')])
            (example_target None (Some (example_key ''k'')))"
  let ?b4 = "example_bundle ''b'' [example_secret_source (example_selector ''b'' ''k'')]
            (example_target (Some (example_key ''k'')) None)"
  have l: "0 < length (Sources (Spec ?b1))" "0 < length (Sources (Spec ?b2))"
    "12 < length (Sources (Spec ?b3))" "0 < length (Sources (Spec ?b4))"
    by (simp_all add: example_bundle_def)
  note P1 = same_source_as_target [OF l(1), where ext = example_externals and v = Validator
      and log = "[]", THEN conjunct1, rule_format,
      of "example_selector ''b'' ''k''" "example_key ''k''"]
  note P3 = same_source_as_target [OF l(3), where ext = example_externals and v = Validator
      and log = "[]", THEN conjunct2, THEN conjunct1, rule_format,
      of "example_selector ''b'' ''k''" "example_key ''k''"]
  note N2 = same_source_as_target [OF l(2), where ext = example_externals and v = Validator
      and log = "[]", THEN conjunct2, THEN conjunct2, THEN mp, OF vls,
      THEN conjunct2, THEN conjunct1, rule_format]
  note N4 = same_source_as_target [OF l(4), where ext = example_externals and v = Validator
      and log = "[]", THEN conjunct2, THEN conjunct2, THEN mp, OF vls,
      THEN conjunct2, THEN conjunct2, rule_format]
  have 1: "\<lparr>Type = ErrorTypeForbidden, Field = ''spec.sources.[0].configMap.b.k'', BadValue = [],
     Detail = ''cannot define the same source as target''\<rparr>
     \<in> set (validate_el example_externals ?b1)"
    using P1
    by (simp add: example_bundle_def example_target_def example_key_def example_selector_def
        example_configMap_source_def Itoa_0)
  have 2: "\<lparr>Type = ErrorTypeForbidden, Field = ''spec.sources.[12].secret.b.k'', BadValue = [],
     Detail = ''cannot define the same source as target''\<rparr>
     \<in> set (validate_el example_externals ?b3)"
    using P3
    by (simp add: example_bundle_def example_target_def example_key_def example_selector_def
        example_secret_source_def Itoa_12 nth_append)
  have 3: "\<lparr>Type = ErrorTypeForbidden, Field = ''spec.sources.[0].configMap.b.other'', BadValue = [],
     Detail = ''cannot define the same source as target''\<rparr>
     \<notin> set (validate_el example_externals ?b2)"
    using N2 [of "\<lparr>Type = ErrorTypeForbidden, Field = ''spec.sources.[0].configMap.b.other'',
        BadValue = [], Detail = ''cannot define the same source as target''\<rparr>" "''.b.other''"]
    by (simp add: example_bundle_def example_target_def example_key_def example_selector_def
        example_configMap_source_def Itoa_0)
  have 4: "\<lparr>Type = ErrorTypeForbidden, Field = ''spec.sources.[0].configMap.b.k'', BadValue = [],
     Detail = ''cannot define the same source as target''\<rparr>
     \<notin> set (validate_el example_externals ?b2)"
    using N2 [of "\<lparr>Type = ErrorTypeForbidden, Field = ''spec.sources.[0].configMap.b.k'',
        BadValue = [], Detail = ''cannot define the same source as target''\<rparr>" "''.b.k''"]
    by (simp add: example_bundle_def example_target_def example_key_def example_selector_def
        example_configMap_source_def Itoa_0)
  have 5: "\<lparr>Type = ErrorTypeForbidden, Field = ''spec.sources.[0].secret.b.k'', BadValue = [],
     Detail = ''cannot define the same source as target''\<rparr>
     \<notin> set (validate_el example_externals ?b4)"
    using N4 [of "\<lparr>Type = ErrorTypeForbidden, Field = ''spec.sources.[0].secret.b.k'',
        BadValue = [], Detail = ''cannot define the same source as target''\<rparr>" "''.b.k''"]
    by (simp add: example_bundle_def example_target_def example_key_def example_selector_def
        example_secret_source_def Itoa_0)
  from 1 2 3 4 5 show ?thesis by blast
qed

section \<open>The checks of the resource definition: claims\<close>

text \<open>
  C3. A source with exactly one of configMap, secret, inLine and
  \<open>useDefaultCAs = true\<close> gets no fault; any other source gets the one fault
  \<open>must define exactly one source\<close> at \<open>spec.sources[i]\<close>. A source with only
  \<open>useDefaultCAs = false\<close> is one of the latter.
\<close>

theorem validate_source_item_exactly_one:
  "validate_source_item i source =
     (if (ConfigMap source \<noteq> None \<and> Secret source = None \<and> InLine source = None \<and>
            UseDefaultCAs source \<noteq> Some True) \<or>
         (ConfigMap source = None \<and> Secret source \<noteq> None \<and> InLine source = None \<and>
            UseDefaultCAs source \<noteq> Some True) \<or>
         (ConfigMap source = None \<and> Secret source = None \<and> InLine source \<noteq> None \<and>
            UseDefaultCAs source \<noteq> Some True) \<or>
         (ConfigMap source = None \<and> Secret source = None \<and> InLine source = None \<and>
            UseDefaultCAs source = Some True)
      then []
      else [\<lparr>Type = ErrorTypeInvalid, Field = ''spec.sources['' @ Itoa i @ '']'',
              BadValue = ''object'', Detail = ''must define exactly one source''\<rparr>]) \<and>
   validate_source_item i
     \<lparr>ConfigMap = None, Secret = None, InLine = None, UseDefaultCAs = Some False\<rparr> =
     [\<lparr>Type = ErrorTypeInvalid, Field = ''spec.sources['' @ Itoa i @ '']'',
        BadValue = ''object'', Detail = ''must define exactly one source''\<rparr>]"
  by (auto simp: validate_source_item_def count_populated_def Invalid_def Field_sources_Index)

text \<open>The seven entries of the test table \<open>should require exactly one source\<close>.\<close>

theorem validate_source_item_exactly_one_witness:
  "validate_source_item 0 \<lparr>ConfigMap = None, Secret = None, InLine = None, UseDefaultCAs = None\<rparr> =
     [\<lparr>Type = ErrorTypeInvalid, Field = ''spec.sources[0]'',
        BadValue = ''object'', Detail = ''must define exactly one source''\<rparr>] \<and>
   validate_source_item 0 (example_configMap_source (example_selector ''ca'' ''ca.crt'')) = [] \<and>
   validate_source_item 0 (example_secret_source (example_selector ''ca'' ''ca.crt'')) = [] \<and>
   validate_source_item 0 \<lparr>ConfigMap = None, Secret = None, InLine = Some [], UseDefaultCAs = None\<rparr> = [] \<and>
   validate_source_item 0 example_defaultCAs = [] \<and>
   validate_source_item 0 \<lparr>ConfigMap = None, Secret = None, InLine = None, UseDefaultCAs = Some False\<rparr> =
     [\<lparr>Type = ErrorTypeInvalid, Field = ''spec.sources[0]'',
        BadValue = ''object'', Detail = ''must define exactly one source''\<rparr>] \<and>
   validate_source_item 0 \<lparr>ConfigMap = None, Secret = None, InLine = Some [], UseDefaultCAs = Some True\<rparr> =
     [\<lparr>Type = ErrorTypeInvalid, Field = ''spec.sources[0]'',
        BadValue = ''object'', Detail = ''must define exactly one source''\<rparr>]"
  using
    validate_source_item_exactly_one [of 0 "\<lparr>ConfigMap = None, Secret = None, InLine = None, UseDefaultCAs = None\<rparr>"]
    validate_source_item_exactly_one [of 0 "example_configMap_source (example_selector ''ca'' ''ca.crt'')"]
    validate_source_item_exactly_one [of 0 "example_secret_source (example_selector ''ca'' ''ca.crt'')"]
    validate_source_item_exactly_one [of 0 "\<lparr>ConfigMap = None, Secret = None, InLine = Some [], UseDefaultCAs = None\<rparr>"]
    validate_source_item_exactly_one [of 0 example_defaultCAs]
    validate_source_item_exactly_one [of 0 "\<lparr>ConfigMap = None, Secret = None, InLine = Some [], UseDefaultCAs = Some True\<rparr>"]
  by (simp add: Itoa_0 example_configMap_source_def example_secret_source_def example_defaultCAs_def)

text \<open>
  C5. A target with neither configMap nor secret gets the fault
  \<open>must define at least one target configMap/secret\<close> at \<open>spec.target\<close>; a target
  with at least one of them does not.
\<close>

theorem validate_target_defined_iff:
  "validate_target_defined target =
     (if Target_ConfigMap target = None \<and> Target_Secret target = None
      then [\<lparr>Type = ErrorTypeInvalid, Field = ''spec.target'', BadValue = ''object'',
              Detail = ''must define at least one target configMap/secret''\<rparr>]
      else [])"
  by (simp add: validate_target_defined_def Invalid_def Field_target)

text \<open>
  The four entries of the test table \<open>should require at least one target
  configMap/secret\<close>.
\<close>

theorem validate_target_defined_iff_witness:
  "validate_target_defined (example_target None None) =
     [\<lparr>Type = ErrorTypeInvalid, Field = ''spec.target'', BadValue = ''object'',
        Detail = ''must define at least one target configMap/secret''\<rparr>] \<and>
   validate_target_defined (example_target (Some (example_key ''ca-bundle.crt'')) None) = [] \<and>
   validate_target_defined (example_target None (Some (example_key ''ca-bundle.crt''))) = [] \<and>
   validate_target_defined
     (example_target (Some (example_key ''ca-bundle.crt'')) (Some (example_key ''ca-bundle.crt''))) = []"
  using
    validate_target_defined_iff [of "example_target None None"]
    validate_target_defined_iff [of "example_target (Some (example_key ''ca-bundle.crt'')) None"]
    validate_target_defined_iff [of "example_target None (Some (example_key ''ca-bundle.crt''))"]
    validate_target_defined_iff [of "example_target (Some (example_key ''ca-bundle.crt'')) (Some (example_key ''ca-bundle.crt''))"]
  by (simp add: example_target_def)

text \<open>
  C4. A JKS or PKCS12 key that equals the key of the target configMap or of the
  target secret gives the fault \<open>additional format keys must be different from
  configMap/secret keys\<close>; a JKS key and a PKCS12 key that are both present and equal
  give \<open>additional format keys must be unique\<close>; when the additional format keys are
  distinct and none of them is a primary key, neither fault is given.
\<close>

theorem additional_format_keys_checked:
  "(\<forall>formats jks c. Target_AdditionalFormats target = Some formats \<and>
       AdditionalFormats_JKS formats = Some jks \<and>
       (Target_ConfigMap target = Some c \<or> Target_Secret target = Some c) \<and>
       KeySelector_Key (JKS_KeySelector jks) = KeySelector_Key c \<longrightarrow>
       validate_additional_format_keys_differ target =
         [\<lparr>Type = ErrorTypeInvalid, Field = ''spec.target'', BadValue = ''object'',
            Detail = ''additional format keys must be different from configMap/secret keys''\<rparr>]) \<and>
   (\<forall>formats pkcs12 c. Target_AdditionalFormats target = Some formats \<and>
       AdditionalFormats_PKCS12 formats = Some pkcs12 \<and>
       (Target_ConfigMap target = Some c \<or> Target_Secret target = Some c) \<and>
       KeySelector_Key (PKCS12_KeySelector pkcs12) = KeySelector_Key c \<longrightarrow>
       validate_additional_format_keys_differ target =
         [\<lparr>Type = ErrorTypeInvalid, Field = ''spec.target'', BadValue = ''object'',
            Detail = ''additional format keys must be different from configMap/secret keys''\<rparr>]) \<and>
   (\<forall>formats jks pkcs12. Target_AdditionalFormats target = Some formats \<and>
       AdditionalFormats_JKS formats = Some jks \<and> AdditionalFormats_PKCS12 formats = Some pkcs12 \<and>
       KeySelector_Key (JKS_KeySelector jks) = KeySelector_Key (PKCS12_KeySelector pkcs12) \<longrightarrow>
       validate_additional_format_keys_unique target =
         [\<lparr>Type = ErrorTypeInvalid, Field = ''spec.target'', BadValue = ''object'',
            Detail = ''additional format keys must be unique''\<rparr>]) \<and>
   (distinct (additional_format_keys target) \<and>
    set (additional_format_keys target) \<inter> set (primary_keys target) = {} \<longrightarrow>
       validate_additional_format_keys_differ target = [] \<and>
       validate_additional_format_keys_unique target = [])"
proof (intro conjI allI impI)
  fix formats jks c
  assume a: "Target_AdditionalFormats target = Some formats \<and>
       AdditionalFormats_JKS formats = Some jks \<and>
       (Target_ConfigMap target = Some c \<or> Target_Secret target = Some c) \<and>
       KeySelector_Key (JKS_KeySelector jks) = KeySelector_Key c"
  then have "KeySelector_Key c \<in> set (additional_format_keys target)"
    by (simp add: additional_format_keys_def jks_keys_Some)
  moreover from a have "KeySelector_Key c \<in> set (primary_keys target)"
    by (auto simp: primary_keys_def split: option.split)
  ultimately show "validate_additional_format_keys_differ target =
         [\<lparr>Type = ErrorTypeInvalid, Field = ''spec.target'', BadValue = ''object'',
            Detail = ''additional format keys must be different from configMap/secret keys''\<rparr>]"
    by (rule differ_fault)
next
  fix formats pkcs12 c
  assume a: "Target_AdditionalFormats target = Some formats \<and>
       AdditionalFormats_PKCS12 formats = Some pkcs12 \<and>
       (Target_ConfigMap target = Some c \<or> Target_Secret target = Some c) \<and>
       KeySelector_Key (PKCS12_KeySelector pkcs12) = KeySelector_Key c"
  then have "KeySelector_Key c \<in> set (additional_format_keys target)"
    by (simp add: additional_format_keys_def pkcs12_keys_Some)
  moreover from a have "KeySelector_Key c \<in> set (primary_keys target)"
    by (auto simp: primary_keys_def split: option.split)
  ultimately show "validate_additional_format_keys_differ target =
         [\<lparr>Type = ErrorTypeInvalid, Field = ''spec.target'', BadValue = ''object'',
            Detail = ''additional format keys must be different from configMap/secret keys''\<rparr>]"
    by (rule differ_fault)
next
  fix formats jks pkcs12
  assume "Target_AdditionalFormats target = Some formats \<and>
       AdditionalFormats_JKS formats = Some jks \<and> AdditionalFormats_PKCS12 formats = Some pkcs12 \<and>
       KeySelector_Key (JKS_KeySelector jks) = KeySelector_Key (PKCS12_KeySelector pkcs12)"
  then show "validate_additional_format_keys_unique target =
         [\<lparr>Type = ErrorTypeInvalid, Field = ''spec.target'', BadValue = ''object'',
            Detail = ''additional format keys must be unique''\<rparr>]"
    by (simp add: validate_additional_format_keys_unique_def jks_keys_Some pkcs12_keys_Some
        Invalid_def Field_target)
next
  assume "distinct (additional_format_keys target) \<and>
    set (additional_format_keys target) \<inter> set (primary_keys target) = {}"
  then show "validate_additional_format_keys_differ target = []"
    by (simp add: validate_additional_format_keys_differ_def)
next
  assume a: "distinct (additional_format_keys target) \<and>
    set (additional_format_keys target) \<inter> set (primary_keys target) = {}"
  show "validate_additional_format_keys_unique target = []"
  proof (cases "jks_keys target \<noteq> [] \<and> jks_keys target = pkcs12_keys target")
    case True
    then obtain x xs where "jks_keys target = x # xs" by (meson neq_Nil_conv)
    with True a show ?thesis by (simp add: additional_format_keys_def)
  next
    case False
    then show ?thesis by (simp add: validate_additional_format_keys_unique_def)
  qed
qed

text \<open>
  Entries of the two test tables on additional format keys: a JKS key equal to the
  configMap key, a PKCS12 key equal to the secret key, equal JKS and PKCS12 keys, and
  four distinct keys.
\<close>

theorem additional_format_keys_checked_witness:
  "validate_additional_format_keys_differ (TargetKeySpec_target ''c'' ''s'' ''c'' []) =
     [\<lparr>Type = ErrorTypeInvalid, Field = ''spec.target'', BadValue = ''object'',
        Detail = ''additional format keys must be different from configMap/secret keys''\<rparr>] \<and>
   validate_additional_format_keys_differ (TargetKeySpec_target ''c'' ''s'' ''j'' ''s'') =
     [\<lparr>Type = ErrorTypeInvalid, Field = ''spec.target'', BadValue = ''object'',
        Detail = ''additional format keys must be different from configMap/secret keys''\<rparr>] \<and>
   validate_additional_format_keys_unique (TargetKeySpec_target ''ca-bundle.crt'' [] ''cacerts'' ''cacerts'') =
     [\<lparr>Type = ErrorTypeInvalid, Field = ''spec.target'', BadValue = ''object'',
        Detail = ''additional format keys must be unique''\<rparr>] \<and>
   validate_additional_format_keys_differ (TargetKeySpec_target ''c'' ''s'' ''j'' ''p'') = [] \<and>
   validate_additional_format_keys_unique (TargetKeySpec_target ''c'' ''s'' ''j'' ''p'') = []"
proof -
  let ?K = "\<lambda>k. \<lparr>KeySelector_Key = k, Format = None, Password = None\<rparr>"
  have 1: "validate_additional_format_keys_differ (TargetKeySpec_target ''c'' ''s'' ''c'' []) =
     [\<lparr>Type = ErrorTypeInvalid, Field = ''spec.target'', BadValue = ''object'',
        Detail = ''additional format keys must be different from configMap/secret keys''\<rparr>]"
    using additional_format_keys_checked [of "TargetKeySpec_target ''c'' ''s'' ''c'' []",
        THEN conjunct1, rule_format,
        of "\<lparr>AdditionalFormats_JKS = Some \<lparr>JKS_KeySelector = ?K ''c''\<rparr>, AdditionalFormats_PKCS12 = None\<rparr>"
           "\<lparr>JKS_KeySelector = ?K ''c''\<rparr>" "?K ''c''"]
    by (simp add: TargetKeySpec_target_def example_key_def)
  have 2: "validate_additional_format_keys_differ (TargetKeySpec_target ''c'' ''s'' ''j'' ''s'') =
     [\<lparr>Type = ErrorTypeInvalid, Field = ''spec.target'', BadValue = ''object'',
        Detail = ''additional format keys must be different from configMap/secret keys''\<rparr>]"
    using additional_format_keys_checked [of "TargetKeySpec_target ''c'' ''s'' ''j'' ''s''",
        THEN conjunct2, THEN conjunct1, rule_format,
        of "\<lparr>AdditionalFormats_JKS = Some \<lparr>JKS_KeySelector = ?K ''j''\<rparr>,
             AdditionalFormats_PKCS12 = Some \<lparr>PKCS12_KeySelector = ?K ''s''\<rparr>\<rparr>"
           "\<lparr>PKCS12_KeySelector = ?K ''s''\<rparr>" "?K ''s''"]
    by (simp add: TargetKeySpec_target_def example_key_def)
  have 3: "validate_additional_format_keys_unique (TargetKeySpec_target ''ca-bundle.crt'' [] ''cacerts'' ''cacerts'') =
     [\<lparr>Type = ErrorTypeInvalid, Field = ''spec.target'', BadValue = ''object'',
        Detail = ''additional format keys must be unique''\<rparr>]"
    using additional_format_keys_checked [of "TargetKeySpec_target ''ca-bundle.crt'' [] ''cacerts'' ''cacerts''",
        THEN conjunct2, THEN conjunct2, THEN conjunct1, rule_format,
        of "\<lparr>AdditionalFormats_JKS = Some \<lparr>JKS_KeySelector = ?K ''cacerts''\<rparr>,
             AdditionalFormats_PKCS12 = Some \<lparr>PKCS12_KeySelector = ?K ''cacerts''\<rparr>\<rparr>"
           "\<lparr>JKS_KeySelector = ?K ''cacerts''\<rparr>" "\<lparr>PKCS12_KeySelector = ?K ''cacerts''\<rparr>"]
    by (simp add: TargetKeySpec_target_def example_key_def)
  have 4: "validate_additional_format_keys_differ (TargetKeySpec_target ''c'' ''s'' ''j'' ''p'') = [] \<and>
           validate_additional_format_keys_unique (TargetKeySpec_target ''c'' ''s'' ''j'' ''p'') = []"
    using additional_format_keys_checked [of "TargetKeySpec_target ''c'' ''s'' ''j'' ''p''",
        THEN conjunct2, THEN conjunct2, THEN conjunct2]
    by (simp add: TargetKeySpec_target_def example_key_def additional_format_keys_def
        primary_keys_def jks_keys_def pkcs12_keys_def)
  from 1 2 3 4 show ?thesis by blast
qed

end
